theory Spec2Isabelle
  imports Main "HOL-Library.Finite_Map" "HOL-Library.Multiset"
begin

section \<open>Trivial-version collapse (gen.go, toTrivialVersions)\<close>

text \<open>
  The descriptor types come from the Kubernetes apiextensions v1beta1 package. Only the
  fields that \<^verbatim>\<open>toTrivialVersions\<close> and \<^verbatim>\<open>Generate\<close> read or write are
  kept. A Go pointer field is an \<open>option\<close> (\<open>None\<close> is nil), and so is a slice field
  (\<open>None\<close> is the nil slice). The schema, subresources and column types are type
  parameters: the function only moves them around.
\<close>

record ('s, 'r, 'c) CustomResourceDefinitionVersion =
  ver_Name :: string
  ver_Served :: bool
  ver_Storage :: bool
  ver_Schema :: "'s option"
  ver_Subresources :: "'r option"
  ver_AdditionalPrinterColumns :: "'c list option"

record ('s, 'r, 'c) CustomResourceDefinitionSpec =
  spec_Validation :: "'s option"
  spec_Subresources :: "'r option"
  spec_Versions :: "('s, 'r, 'c) CustomResourceDefinitionVersion list"
  spec_AdditionalPrinterColumns :: "'c list option"
  spec_PreserveUnknownFields :: "bool option"

record ('s, 'r, 'c) CustomResourceDefinition =
  Spec :: "('s, 'r, 'c) CustomResourceDefinitionSpec"

text \<open>
  The three assignments at the end of the loop body
  (\<^verbatim>\<open>crd.Spec.Versions[i].Schema = nil\<close> and the two after it).
\<close>

definition clearVersion ::
  "('s, 'r, 'c) CustomResourceDefinitionVersion \<Rightarrow> ('s, 'r, 'c) CustomResourceDefinitionVersion"
  where
  "clearVersion ver =
     ver\<lparr>ver_Schema := None, ver_Subresources := None, ver_AdditionalPrinterColumns := None\<rparr>"

text \<open>
  The loop \<^verbatim>\<open>for i, ver := range crd.Spec.Versions\<close>. The state is the triple
  (canonicalSchema, canonicalSubresources, canonicalColumns); \<^verbatim>\<open>ver\<close> is the copy
  taken before the element is cleared, so a storage version hands over its original
  fields. The result is the final triple and the rewritten version list.
\<close>

fun versionsLoop ::
  "('s, 'r, 'c) CustomResourceDefinitionVersion list
   \<Rightarrow> 's option \<times> 'r option \<times> 'c list option
   \<Rightarrow> ('s option \<times> 'r option \<times> 'c list option)
      \<times> ('s, 'r, 'c) CustomResourceDefinitionVersion list"
  where
  "versionsLoop [] canonical = (canonical, [])"
| "versionsLoop (ver # rest) canonical =
     (let canonical' =
            (if ver_Storage ver = True
             then (ver_Schema ver, ver_Subresources ver, ver_AdditionalPrinterColumns ver)
             else canonical);
          (final, rest') = versionsLoop rest canonical'
      in (final, clearVersion ver # rest'))"

definition toTrivialVersions ::
  "('s, 'r, 'c) CustomResourceDefinition \<Rightarrow> ('s, 'r, 'c) CustomResourceDefinition"
  where
  "toTrivialVersions crd =
     (let ((canonicalSchema, canonicalSubresources, canonicalColumns), versions) =
            versionsLoop (spec_Versions (Spec crd)) (None, None, None);
          crd1 = crd\<lparr>Spec := (Spec crd)\<lparr>spec_Versions := versions\<rparr>\<rparr>
      in if canonicalSchema = None then crd1
         else crd1\<lparr>Spec := (Spec crd1)
                \<lparr>spec_Validation := canonicalSchema,
                 spec_Subresources := canonicalSubresources,
                 spec_AdditionalPrinterColumns := canonicalColumns\<rparr>\<rparr>)"

section \<open>The generation driver (gen.go, Generate)\<close>

text \<open>
  An \<open>error\<close> is what \<^verbatim>\<open>Generate\<close> can return or raise: \<open>Errorf\<close> is an error
  that \<^verbatim>\<open>Generate\<close> builds itself with \<^verbatim>\<open>fmt.Errorf\<close> (its two configuration
  errors), \<open>External\<close> is an error handed back by a collaborator (reading the header
  file, converting a descriptor, writing a file), and \<open>Panic\<close> is a failed type
  assertion.
\<close>

datatype error = Errorf string | External string | Panic string

record Generator =
  TrivialVersions :: bool
  PreserveUnknownFields :: "bool option"
  AllowDangerousTypes :: "bool option"
  MaxDescLen :: "int option"
  CRDVersions :: "string list"
  HeaderFile :: string
  Year :: string
  PackageName :: string

text \<open>
  The descriptor before conversion (apiextensions v1): \<^verbatim>\<open>addAttribution\<close> touches its
  annotations only, the rest is carried along.
\<close>

record 'a RawCRD =
  raw_Annotations :: "(string, string) fmap option"
  raw_Body :: 'a

text \<open>
  What \<^verbatim>\<open>crd.AsVersion\<close> returns behind \<^verbatim>\<open>interface{}\<close>: a v1 descriptor or a
  v1beta1 (legacy) one.
\<close>

datatype 'a versionedCRD =
  V1CRD "'a RawCRD"
| V1beta1CRD "('a, 'a, 'a) CustomResourceDefinition"

record codeWriter =
  packageName :: string
  headerText :: string

text \<open>
  The collaborators of \<^verbatim>\<open>Generate\<close> that are not part of gen.go, as parameters:
  \<^verbatim>\<open>ctx.ReadFile\<close>; whether \<^verbatim>\<open>crd.FindMetav1\<close> finds a package; the kinds of
  \<^verbatim>\<open>crd.FindKubeKinds\<close> in the order in which \<^verbatim>\<open>range\<close> visits that map in this
  run; the descriptor the parser holds for a kind after \<^verbatim>\<open>NeedCRDFor\<close>;
  \<^verbatim>\<open>crd.AsVersion\<close>; \<^verbatim>\<open>version.Version\<close>; and the errors of writing the two
  files (\<^verbatim>\<open>cw.GenerateScheme\<close>, \<^verbatim>\<open>cw.GenerateCrds\<close>).
\<close>

record 'a GenerationContext =
  ReadFile :: "string \<Rightarrow> string + string"
  FindMetav1 :: bool
  FindKubeKinds :: "(string \<times> string) list"
  NeedCRDFor :: "string \<times> string \<Rightarrow> int option \<Rightarrow> 'a RawCRD"
  AsVersion :: "'a RawCRD \<Rightarrow> string \<Rightarrow> string + 'a versionedCRD"
  Version :: string
  GenerateScheme_error :: "codeWriter \<Rightarrow> string option"
  GenerateCrds_error ::
    "codeWriter \<Rightarrow> (string, 'a versionedCRD list) fmap \<Rightarrow> string option"

text \<open>
  \<^verbatim>\<open>strings.ReplaceAll\<close> for a non-empty \<open>old\<close>: the occurrences are replaced from
  left to right without overlap. The first argument of the helper counts the characters
  of a matched occurrence that are still to be skipped.
\<close>

fun replaceFrom :: "nat \<Rightarrow> string \<Rightarrow> string \<Rightarrow> string \<Rightarrow> string" where
  "replaceFrom k [] old new = []"
| "replaceFrom (Suc k) (c # cs) old new = replaceFrom k cs old new"
| "replaceFrom 0 (c # cs) old new =
     (if take (length old) (c # cs) = old
      then new @ replaceFrom (length old - 1) cs old new
      else c # replaceFrom 0 cs old new)"

definition ReplaceAll :: "string \<Rightarrow> string \<Rightarrow> string \<Rightarrow> string" where
  "ReplaceAll s old new = replaceFrom 0 s old new"

definition addAttribution :: "string \<Rightarrow> 'a RawCRD \<Rightarrow> 'a RawCRD" where
  "addAttribution version crd =
     (let annotations = (case raw_Annotations crd of None \<Rightarrow> fmempty | Some m \<Rightarrow> m)
      in crd\<lparr>raw_Annotations :=
               Some (fmupd ''controller-gen.kubebuilder.io/version'' version annotations)\<rparr>)"

text \<open>
  The loop \<^verbatim>\<open>for i, ver := range crdVersions\<close> that fills \<^verbatim>\<open>versionedCRDs\<close>; the
  first conversion error is returned.
\<close>

fun convertLoop ::
  "'a GenerationContext \<Rightarrow> 'a RawCRD \<Rightarrow> string list \<Rightarrow> error + 'a versionedCRD list"
  where
  "convertLoop ctx crdRaw [] = Inr []"
| "convertLoop ctx crdRaw (ver # vers) =
     (case AsVersion ctx crdRaw ver of
        Inl err \<Rightarrow> Inl (External err)
      | Inr conv \<Rightarrow>
          (case convertLoop ctx crdRaw vers of
             Inl err \<Rightarrow> Inl err
           | Inr rest \<Rightarrow> Inr (conv # rest)))"

text \<open>
  The type assertion \<^verbatim>\<open>crd.(*apiextlegacy.CustomResourceDefinition)\<close> followed by an
  update of the descriptor behind the pointer.
\<close>

definition onLegacy ::
  "(('a, 'a, 'a) CustomResourceDefinition \<Rightarrow> ('a, 'a, 'a) CustomResourceDefinition)
   \<Rightarrow> 'a versionedCRD \<Rightarrow> error + 'a versionedCRD"
  where
  "onLegacy f crd =
     (case crd of
        V1beta1CRD legacy \<Rightarrow> Inr (V1beta1CRD (f legacy))
      | V1CRD _ \<Rightarrow> Inl (Panic ''interface conversion''))"

text \<open>
  The loop under \<^verbatim>\<open>if g.TrivialVersions\<close>: it walks \<^verbatim>\<open>versionedCRDs\<close> and
  \<^verbatim>\<open>crdVersions\<close> side by side (they have the same length).
\<close>

fun trivialLoop :: "string list \<Rightarrow> 'a versionedCRD list \<Rightarrow> error + 'a versionedCRD list"
  where
  "trivialLoop (ver # vers) (crd # crds) =
     (case (if ver = ''v1beta1'' then onLegacy toTrivialVersions crd else Inr crd) of
        Inl err \<Rightarrow> Inl err
      | Inr crd' \<Rightarrow>
          (case trivialLoop vers crds of
             Inl err \<Rightarrow> Inl err
           | Inr rest \<Rightarrow> Inr (crd' # rest)))"
| "trivialLoop vers crds = Inr crds"

text \<open>
  The loop body up to the \<^verbatim>\<open>switch\<close> (gen.go lines 140 to 159): fetch the
  descriptor, stamp it, convert it to every requested version, collapse if asked.
\<close>

definition prepareKind ::
  "Generator \<Rightarrow> 'a GenerationContext \<Rightarrow> string list \<Rightarrow> string \<times> string
   \<Rightarrow> error + 'a versionedCRD list"
  where
  "prepareKind g ctx crdVersions groupKind =
     (let crdRaw = addAttribution (Version ctx) (NeedCRDFor ctx groupKind (MaxDescLen g))
      in case convertLoop ctx crdRaw crdVersions of
           Inl err \<Rightarrow> Inl err
         | Inr versionedCRDs \<Rightarrow>
             if TrivialVersions g then trivialLoop crdVersions versionedCRDs
             else Inr versionedCRDs)"

definition v1beta1Only :: "string list \<Rightarrow> bool" where
  "v1beta1Only crdVersions \<longleftrightarrow> length crdVersions = 1 \<and> crdVersions ! 0 = ''v1beta1''"

text \<open>The \<^verbatim>\<open>switch\<close> on \<^verbatim>\<open>PreserveUnknownFields\<close> (gen.go lines 164 to 173).\<close>

definition preserveSwitch ::
  "Generator \<Rightarrow> string list \<Rightarrow> 'a versionedCRD list \<Rightarrow> error + 'a versionedCRD list"
  where
  "preserveSwitch g crdVersions versionedCRDs =
     (if (PreserveUnknownFields g = None \<or> PreserveUnknownFields g = Some True)
         \<and> v1beta1Only crdVersions
      then (case versionedCRDs of
              [] \<Rightarrow> Inl (Panic ''index out of range'')
            | crd # rest \<Rightarrow>
                (case onLegacy
                        (\<lambda>c. c\<lparr>Spec := (Spec c)\<lparr>spec_PreserveUnknownFields := None\<rparr>\<rparr>) crd of
                   Inl err \<Rightarrow> Inl err
                 | Inr crd' \<Rightarrow> Inr (crd' # rest)))
      else if PreserveUnknownFields g = None \<or> PreserveUnknownFields g = Some False
      then Inr versionedCRDs
      else Inl (Errorf ''you may only set PreserveUnknownFields to true with v1beta1 CRDs''))"

text \<open>
  The last loop of the body: \<^verbatim>\<open>crds[crdVersions[i]] = append(crds[crdVersions[i]], crd)\<close>.
\<close>

fun collect ::
  "string list \<Rightarrow> 'a versionedCRD list \<Rightarrow> (string, 'a versionedCRD list) fmap
   \<Rightarrow> (string, 'a versionedCRD list) fmap"
  where
  "collect (ver # vers) (crd # rest) crds =
     collect vers rest
       (fmupd ver ((case fmlookup crds ver of None \<Rightarrow> [] | Some l \<Rightarrow> l) @ [crd]) crds)"
| "collect vers rest crds = crds"

text \<open>The loop \<^verbatim>\<open>for groupKind := range kubeKinds\<close>.\<close>

fun kindsLoop ::
  "Generator \<Rightarrow> 'a GenerationContext \<Rightarrow> string list \<Rightarrow> (string \<times> string) list
   \<Rightarrow> (string, 'a versionedCRD list) fmap \<Rightarrow> error + (string, 'a versionedCRD list) fmap"
  where
  "kindsLoop g ctx crdVersions [] crds = Inr crds"
| "kindsLoop g ctx crdVersions (groupKind # kinds) crds =
     (case prepareKind g ctx crdVersions groupKind of
        Inl err \<Rightarrow> Inl err
      | Inr versionedCRDs \<Rightarrow>
          (case preserveSwitch g crdVersions versionedCRDs of
             Inl err \<Rightarrow> Inl err
           | Inr versionedCRDs' \<Rightarrow>
               kindsLoop g ctx crdVersions kinds (collect crdVersions versionedCRDs' crds)))"

text \<open>
  \<^verbatim>\<open>crdVersions\<close> after the default: an empty \<^verbatim>\<open>CRDVersions\<close> means \<^verbatim>\<open>v1\<close>.
\<close>

definition requestedVersions :: "Generator \<Rightarrow> string list" where
  "requestedVersions g = (if length (CRDVersions g) = 0 then [''v1''] else CRDVersions g)"

definition readHeader :: "Generator \<Rightarrow> 'a GenerationContext \<Rightarrow> string + string" where
  "readHeader g ctx = (if HeaderFile g \<noteq> [] then ReadFile ctx (HeaderFile g) else Inr [])"

text \<open>
  The end of \<^verbatim>\<open>Generate\<close> (gen.go lines 180 to 189): the scheme file, then the
  descriptor file; the first error is returned.
\<close>

definition writeFiles ::
  "'a GenerationContext \<Rightarrow> codeWriter \<Rightarrow> (string, 'a versionedCRD list) fmap
   \<Rightarrow> error option"
  where
  "writeFiles ctx cw crds =
     (case GenerateScheme_error ctx cw of
        Some err \<Rightarrow> Some (External err)
      | None \<Rightarrow>
          (case GenerateCrds_error ctx cw crds of
             Some err \<Rightarrow> Some (External err)
           | None \<Rightarrow> None))"

text \<open>
  \<^verbatim>\<open>Generate\<close> returns an \<^verbatim>\<open>error\<close>: \<open>None\<close> is nil. A panic is reported the same
  way, as \<open>Some (Panic _)\<close>.
\<close>

definition Generate :: "Generator \<Rightarrow> 'a GenerationContext \<Rightarrow> error option" where
  "Generate g ctx =
     (if PackageName g = [] then Some (Errorf ''missing package name'')
      else case readHeader g ctx of
        Inl err \<Rightarrow> Some (External err)
      | Inr headerBytes \<Rightarrow>
          (let headerText = ReplaceAll headerBytes '' YEAR'' ('' '' @ Year g)
           in if \<not> FindMetav1 ctx then None
              else if length (FindKubeKinds ctx) = 0 then None
              else let crdVersions = requestedVersions g;
                       cw = \<lparr>packageName = PackageName g, headerText = headerText\<rparr>
                   in case kindsLoop g ctx crdVersions (FindKubeKinds ctx) fmempty of
                        Inl err \<Rightarrow> Some err
                      | Inr crds \<Rightarrow> writeFiles ctx cw crds))"

text \<open>The two configuration errors of the spec's error taxonomy.\<close>

definition isConfigurationError :: "error option \<Rightarrow> bool" where
  "isConfigurationError r \<longleftrightarrow>
     r = Some (Errorf ''missing package name'')
     \<or> r = Some (Errorf ''you may only set PreserveUnknownFields to true with v1beta1 CRDs'')"

text \<open>
  The switch is reached for the first kind of the run: the header was read, a metav1
  package and at least one kind were found, and the first kind was converted to every
  requested version (and collapsed, if asked) without an error.
\<close>

definition reachesSwitch :: "Generator \<Rightarrow> 'a GenerationContext \<Rightarrow> bool" where
  "reachesSwitch g ctx \<longleftrightarrow>
     \<not> isl (readHeader g ctx) \<and> FindMetav1 ctx
     \<and> (case FindKubeKinds ctx of
          [] \<Rightarrow> False
        | groupKind # _ \<Rightarrow> \<not> isl (prepareKind g ctx (requestedVersions g) groupKind))"


section \<open>The import registry (traverse.go, importsList)\<close>

text \<open>
  A Go string is modelled as a \<open>string\<close>, one \<open>char\<close> per byte. Import paths are
  ASCII, so a byte is a rune: \<^verbatim>\<open>utf8.DecodeRuneInString\<close> reads one character, and
  \<^verbatim>\<open>unicode.IsDigit\<close> and \<^verbatim>\<open>unicode.IsLetter\<close> are their ASCII ranges. A byte
  outside ASCII counts as neither a letter nor a digit.
\<close>

definition isDigit :: "char \<Rightarrow> bool" where
  "isDigit r \<longleftrightarrow> 48 \<le> (of_char r :: nat) \<and> (of_char r :: nat) \<le> 57"

definition isLetter :: "char \<Rightarrow> bool" where
  "isLetter r \<longleftrightarrow>
     (65 \<le> (of_char r :: nat) \<and> (of_char r :: nat) \<le> 90)
     \<or> (97 \<le> (of_char r :: nat) \<and> (of_char r :: nat) \<le> 122)"

text \<open>
  \<^verbatim>\<open>strings.LastIndex(s, substr)\<close>: the index of the last instance of \<open>substr\<close> in
  \<open>s\<close>, or -1. The helper tries the start positions \<open>i\<close>, \<open>i - 1\<close>, down to 0.
\<close>

fun lastIndexFrom :: "nat \<Rightarrow> string \<Rightarrow> string \<Rightarrow> int" where
  "lastIndexFrom 0 s substr = (if take (length substr) s = substr then 0 else - 1)"
| "lastIndexFrom (Suc i) s substr =
     (if take (length substr) (drop (Suc i) s) = substr then int (Suc i)
      else lastIndexFrom i s substr)"

definition LastIndex :: "string \<Rightarrow> string \<Rightarrow> int" where
  "LastIndex s substr =
     (if length s < length substr then - 1
      else lastIndexFrom (length s - length substr) s substr)"

text \<open>
  \<^verbatim>\<open>path.Split\<close>: the path is cut right after its final slash; without a slash the
  directory is empty.
\<close>

definition path_Split :: "string \<Rightarrow> string \<times> string" where
  "path_Split path =
     (let i = LastIndex path ''/''
      in (take (nat (i + 1)) path, drop (nat (i + 1)) path))"

record importsList =
  byPath :: "(string, string) fmap"
  byAlias :: "(string, string) fmap"

text \<open>The package variable \<^verbatim>\<open>imports\<close> as initialised: two empty maps.\<close>

definition imports_init :: importsList where
  "imports_init = \<lparr>byPath = fmempty, byAlias = fmempty\<rparr>"

text \<open>
  A Go map read with two results, \<^verbatim>\<open>v, exists = m[k]\<close>: a missing key gives the empty
  string and false.
\<close>

definition lookup2 :: "(string, string) fmap \<Rightarrow> string \<Rightarrow> string \<times> bool" where
  "lookup2 m k = (case fmlookup m k of None \<Rightarrow> ([], False) | Some v \<Rightarrow> (v, True))"

text \<open>
  The body of the \<^verbatim>\<open>for\<close> loop of \<^verbatim>\<open>NeedImport\<close> on its three variables
  (alias, restPath, nextWord): append an \<^verbatim>\<open>x\<close> once the path parts have run out, skip
  the leading digits of the next word, replace its bad characters by underscores, put it
  in front of the alias, and split the rest of the path again.
\<close>

definition loopBody :: "string \<times> string \<times> string \<Rightarrow> string \<times> string \<times> string" where
  "loopBody st =
     (case st of (alias, restPath, nextWord) \<Rightarrow>
        let alias1 = (if restPath = [] then alias @ ''x'' else alias);
            nextWord1 = dropWhile isDigit nextWord;
            nextWord2 = map (\<lambda>r. if isLetter r \<or> isDigit r \<or> r = CHR ''_'' then r
                                  else CHR ''_'') nextWord1;
            alias2 = nextWord2 @ alias1
        in if length restPath > 0
           then (case path_Split (take (length restPath - 1) restPath) of
                   (restPath', nextWord') \<Rightarrow> (alias2, restPath', nextWord'))
           else (alias2, restPath, nextWord2))"

text \<open>The longest alias the registry knows; it bounds the loop.\<close>

definition maxAliasLen :: "(string, string) fmap \<Rightarrow> nat" where
  "maxAliasLen m = Max (insert 0 (length ` fset (fmdom m)))"

text \<open>
  The loop \<^verbatim>\<open>for otherPath, exists := "", true; exists && otherPath != importPath;
  otherPath, exists = l.byAlias[alias] { ... }\<close>, entered with the pair
  (otherPath, exists) and the three variables of the body. It returns the final alias.
\<close>

function aliasLoop ::
  "(string, string) fmap \<Rightarrow> string \<Rightarrow> string \<times> bool \<Rightarrow> string \<times> string \<times> string
   \<Rightarrow> string"
  where
  "aliasLoop aliases importPath cond st =
     (if snd cond \<and> fst cond \<noteq> importPath
      then aliasLoop aliases importPath (lookup2 aliases (fst (loopBody st))) (loopBody st)
      else fst st)"
  by pat_completeness auto
termination
proof (relation "measures
    [\<lambda>(aliases, importPath, cond, st). length (fst (snd st)),
     \<lambda>(aliases, importPath, cond, st).
        if snd cond then Suc (Suc (maxAliasLen aliases) - length (fst st)) else 0]")
  show "wf (measures
    [\<lambda>(aliases, importPath, cond, st). length (fst (snd st)),
     \<lambda>(aliases :: (string, string) fmap, importPath :: string, cond :: string \<times> bool,
        st :: string \<times> string \<times> string).
        if snd cond then Suc (Suc (maxAliasLen aliases) - length (fst st)) else 0])"
    by simp
next
  fix aliases :: "(string, string) fmap" and importPath :: string
    and cond :: "string \<times> bool" and st :: "string \<times> string \<times> string"
  assume enter: "snd cond \<and> fst cond \<noteq> importPath"
  obtain alias0 restPath nextWord where st: "st = (alias0, restPath, nextWord)"
    by (cases st)
  show "((aliases, importPath, lookup2 aliases (fst (loopBody st)), loopBody st),
         (aliases, importPath, cond, st))
        \<in> measures
          [\<lambda>(aliases, importPath, cond, st). length (fst (snd st)),
           \<lambda>(aliases, importPath, cond, st).
              if snd cond then Suc (Suc (maxAliasLen aliases) - length (fst st)) else 0]"
  proof (cases "restPath = []")
    case False
    have "length (fst (path_Split (take (length restPath - 1) restPath)))
            \<le> length restPath - 1"
      by (simp add: path_Split_def Let_def)
    with False have "length (fst (snd (loopBody st))) < length restPath"
      by (cases restPath) (simp_all add: st loopBody_def Let_def case_prod_beta)
    then show ?thesis by (simp add: st)
  next
    case True
    then have rest: "fst (snd (loopBody st)) = []"
      by (simp add: st loopBody_def Let_def)
    from True have longer: "length alias0 < length (fst (loopBody st))"
      by (simp add: st loopBody_def Let_def)
    show ?thesis
    proof (cases "fmlookup aliases (fst (loopBody st))")
      case None
      with enter rest True show ?thesis by (simp add: st lookup2_def)
    next
      case (Some otherPath)
      then have "fst (loopBody st) \<in> fset (fmdom aliases)"
        by (simp add: fmdomI)
      then have "length (fst (loopBody st)) \<le> maxAliasLen aliases"
        by (simp add: maxAliasLen_def)
      with longer enter rest True Some show ?thesis
        by (simp add: st lookup2_def)
    qed
  qed
qed

declare aliasLoop.simps [simp del]

text \<open>
  The first statement of \<^verbatim>\<open>NeedImport\<close>: a path with a \<^verbatim>\<open>/vendor/\<close> segment is
  cut after the last such segment.
\<close>

definition stripVendor :: "string \<Rightarrow> string" where
  "stripVendor importPath =
     (let ind = LastIndex importPath ''/vendor/''
      in if ind \<noteq> - 1 then drop (nat (ind + 8)) importPath else importPath)"

text \<open>
  \<^verbatim>\<open>NeedImport\<close> takes the registry and returns the alias together with the registry
  as it leaves it.
\<close>

definition NeedImport :: "string \<Rightarrow> importsList \<Rightarrow> string \<times> importsList" where
  "NeedImport path l =
     (let importPath = stripVendor path
      in case fmlookup (byPath l) importPath of
           Some alias \<Rightarrow> (alias, l)
         | None \<Rightarrow>
             (case path_Split importPath of
                (restPath, nextWord) \<Rightarrow>
                  let alias = aliasLoop (byAlias l) importPath ([], True) ([], restPath, nextWord)
                  in (alias,
                      l\<lparr>byPath := fmupd importPath alias (byPath l),
                        byAlias := fmupd alias importPath (byAlias l)\<rparr>)))"

text \<open>
  A run of the registry: the paths are submitted in order, each call working on the
  registry the one before it left. The result lists the aliases handed out.
\<close>

fun needImports :: "string list \<Rightarrow> importsList \<Rightarrow> string list \<times> importsList" where
  "needImports [] l = ([], l)"
| "needImports (path # paths) l =
     (case NeedImport path l of
        (alias, l') \<Rightarrow>
          (case needImports paths l' of (aliases, l'') \<Rightarrow> (alias # aliases, l'')))"


text \<open>
  The two maps of a registry mirror each other: a path has an alias exactly when the
  alias leads back to the path.
\<close>

definition registry_ok :: "importsList \<Rightarrow> bool" where
  "registry_ok l \<longleftrightarrow>
     (\<forall>p a. fmlookup (byPath l) p = Some a \<longleftrightarrow> fmlookup (byAlias l) a = Some p)"

section \<open>Reflected types and values (package reflect, as traverse.go reads it)\<close>

datatype kind =
  reflect_Bool | reflect_Int | reflect_Int8 | reflect_Int16 | reflect_Int32 | reflect_Int64
| reflect_Uint | reflect_Uint8 | reflect_Uint16 | reflect_Uint32 | reflect_Uint64
| reflect_Uintptr | reflect_Float32 | reflect_Float64 | reflect_Complex64
| reflect_Complex128 | reflect_Array | reflect_Chan | reflect_Func | reflect_Interface
| reflect_Map | reflect_Ptr | reflect_Slice | reflect_String | reflect_Struct
| reflect_UnsafePointer

text \<open>\<^verbatim>\<open>Kind.String\<close>.\<close>

fun kind_String :: "kind \<Rightarrow> string" where
  "kind_String reflect_Bool = ''bool''"
| "kind_String reflect_Int = ''int''"
| "kind_String reflect_Int8 = ''int8''"
| "kind_String reflect_Int16 = ''int16''"
| "kind_String reflect_Int32 = ''int32''"
| "kind_String reflect_Int64 = ''int64''"
| "kind_String reflect_Uint = ''uint''"
| "kind_String reflect_Uint8 = ''uint8''"
| "kind_String reflect_Uint16 = ''uint16''"
| "kind_String reflect_Uint32 = ''uint32''"
| "kind_String reflect_Uint64 = ''uint64''"
| "kind_String reflect_Uintptr = ''uintptr''"
| "kind_String reflect_Float32 = ''float32''"
| "kind_String reflect_Float64 = ''float64''"
| "kind_String reflect_Complex64 = ''complex64''"
| "kind_String reflect_Complex128 = ''complex128''"
| "kind_String reflect_Array = ''array''"
| "kind_String reflect_Chan = ''chan''"
| "kind_String reflect_Func = ''func''"
| "kind_String reflect_Interface = ''interface''"
| "kind_String reflect_Map = ''map''"
| "kind_String reflect_Ptr = ''ptr''"
| "kind_String reflect_Slice = ''slice''"
| "kind_String reflect_String = ''string''"
| "kind_String reflect_Struct = ''struct''"
| "kind_String reflect_UnsafePointer = ''unsafe.Pointer''"

text \<open>The two interfaces \<^verbatim>\<open>generateStructWithUnexportedField\<close> asks about.\<close>

datatype iface = json_Marshaler | json_Unmarshaler

text \<open>
  A struct field as \<^verbatim>\<open>reflect.StructField\<close> describes it: its name, its package
  path (empty exactly for an exported field) and its type.
\<close>

datatype 't StructField = StructField (field_Name: string) (field_PkgPath: string) (field_Type: 't)

text \<open>
  A \<^verbatim>\<open>reflect.Type\<close>. \<open>Basic\<close> is a type of a kind without components (a scalar,
  an interface, an unsafe pointer) with its package path and name; both are empty for a
  predeclared type. The composite kinds carry their components; the serializer never asks
  for the name of a pointer, slice, array, map, channel or function type. A struct type
  has its package path and name (both empty for an anonymous struct), its fields, the
  interfaces the type itself implements and those a pointer to it implements.
\<close>

datatype rtype =
  Basic kind string string
| PtrTo rtype
| SliceOf rtype
| ArrayOf nat rtype
| MapOf rtype rtype
| ChanOf rtype
| FuncType
| StructType string string "rtype StructField list" "iface list" "iface list"

fun Kind :: "rtype \<Rightarrow> kind" where
  "Kind (Basic k pkg name) = k"
| "Kind (PtrTo e) = reflect_Ptr"
| "Kind (SliceOf e) = reflect_Slice"
| "Kind (ArrayOf n e) = reflect_Array"
| "Kind (MapOf k e) = reflect_Map"
| "Kind (ChanOf e) = reflect_Chan"
| "Kind FuncType = reflect_Func"
| "Kind (StructType pkg name flds ms pms) = reflect_Struct"

fun PkgPath :: "rtype \<Rightarrow> string" where
  "PkgPath (Basic k pkg name) = pkg"
| "PkgPath (StructType pkg name flds ms pms) = pkg"
| "PkgPath t = []"

fun Name :: "rtype \<Rightarrow> string" where
  "Name (Basic k pkg name) = name"
| "Name (StructType pkg name flds ms pms) = name"
| "Name t = []"

fun Fields :: "rtype \<Rightarrow> rtype StructField list" where
  "Fields (StructType pkg name flds ms pms) = flds"
| "Fields t = []"

text \<open>
  \<^verbatim>\<open>t.Implements(u)\<close>, for the struct types and pointers to struct types that the
  serializer asks about.
\<close>

fun Implements :: "rtype \<Rightarrow> iface \<Rightarrow> bool" where
  "Implements (StructType pkg name flds ms pms) u \<longleftrightarrow> u \<in> set ms"
| "Implements (PtrTo (StructType pkg name flds ms pms)) u \<longleftrightarrow> u \<in> set pms"
| "Implements t u \<longleftrightarrow> False"

text \<open>
  The helpers of the package \<^verbatim>\<open>github.com/zoumo/golib/reflection\<close>, which is not part
  of this repository. They are modelled after their names and the way traverse.go uses
  them: a literal type has one of the fifteen kinds that
  \<^verbatim>\<open>generateBuiltinLiteralValue\<close> handles; a custom type has a package path; a field
  is unexported when its package path is set; an anonymous struct is a struct type
  without a name.
\<close>

definition IsLiteralType :: "rtype \<Rightarrow> bool" where
  "IsLiteralType t \<longleftrightarrow>
     Kind t \<in> {reflect_Bool, reflect_Int, reflect_Int8, reflect_Int16, reflect_Int32,
       reflect_Int64, reflect_Uint, reflect_Uint8, reflect_Uint16, reflect_Uint32,
       reflect_Uint64, reflect_Uintptr, reflect_Float32, reflect_Float64, reflect_String}"

definition IsCustomType :: "rtype \<Rightarrow> bool" where
  "IsCustomType t \<longleftrightarrow> PkgPath t \<noteq> []"

definition IsUnexportedField :: "rtype StructField \<Rightarrow> bool" where
  "IsUnexportedField field \<longleftrightarrow> field_PkgPath field \<noteq> []"

text \<open>
  \<^verbatim>\<open>HasUnexportedField\<close> looks at the fields of a struct type one after the other:
  the answer is yes when a field is unexported, or when the type of a field is itself a
  struct type that has an unexported field.
\<close>

function (sequential) HasUnexportedField :: "rtype \<Rightarrow> bool"
  and fieldsUnexported :: "rtype StructField list \<Rightarrow> bool" where
  "HasUnexportedField (StructType pkg name flds ms pms) = fieldsUnexported flds"
| "HasUnexportedField t = False"
| "fieldsUnexported [] = False"
| "fieldsUnexported (StructField name pkg t # flds) =
     (if IsUnexportedField (StructField name pkg t) then True
      else if Kind t = reflect_Struct \<and> HasUnexportedField t then True
      else fieldsUnexported flds)"
  by pat_completeness auto
termination
  by (relation "measure (case_sum size (size_list (size_StructField size)))") simp_all

definition IsAnonymousStruct :: "rtype \<Rightarrow> bool" where
  "IsAnonymousStruct t \<longleftrightarrow> Kind t = reflect_Struct \<and> Name t = []"

text \<open>
  What a scalar value holds: a boolean, a signed or an unsigned integer, a float (its
  IEEE 754 bits, \<^verbatim>\<open>math.Float64bits\<close>) or a string.
\<close>

datatype scalar = S_bool bool | S_int int | S_uint nat | S_float nat | S_string string

text \<open>
  A \<^verbatim>\<open>reflect.Value\<close>: its type and what it holds. A pointer is nil (\<open>None\<close>) or has
  an address and a pointee; a slice or a map is nil or has its elements; the entries of a
  map stand in the order in which \<^verbatim>\<open>MapRange\<close> yields them in this run. \<open>Opaque\<close> is
  a value of any other kind (channel, function, interface, complex number, unsafe
  pointer), of which the serializer only asks whether it is the zero value.
\<close>

datatype rvalue =
  Scalar rtype scalar
| Pointer rtype "(nat \<times> rvalue) option"
| SliceV rtype "rvalue list option"
| ArrayV rtype "rvalue list"
| MapV rtype "(rvalue \<times> rvalue) list option"
| StructV rtype "rvalue list"
| Opaque rtype bool

fun Type_of :: "rvalue \<Rightarrow> rtype" where
  "Type_of (Scalar t s) = t"
| "Type_of (Pointer t p) = t"
| "Type_of (SliceV t es) = t"
| "Type_of (ArrayV t es) = t"
| "Type_of (MapV t kvs) = t"
| "Type_of (StructV t fs) = t"
| "Type_of (Opaque t z) = t"

text \<open>\<^verbatim>\<open>Value.IsZero\<close>.\<close>

fun IsZero :: "rvalue \<Rightarrow> bool" where
  "IsZero (Scalar t (S_bool b)) \<longleftrightarrow> \<not> b"
| "IsZero (Scalar t (S_int i)) \<longleftrightarrow> i = 0"
| "IsZero (Scalar t (S_uint n)) \<longleftrightarrow> n = 0"
| "IsZero (Scalar t (S_float bits)) \<longleftrightarrow> bits = 0"
| "IsZero (Scalar t (S_string str)) \<longleftrightarrow> length str = 0"
| "IsZero (Pointer t p) \<longleftrightarrow> p = None"
| "IsZero (SliceV t es) \<longleftrightarrow> es = None"
| "IsZero (ArrayV t es) \<longleftrightarrow> list_all IsZero es"
| "IsZero (MapV t kvs) \<longleftrightarrow> kvs = None"
| "IsZero (StructV t fs) \<longleftrightarrow> list_all IsZero fs"
| "IsZero (Opaque t z) \<longleftrightarrow> z"

section \<open>Generated code (package jen, as traverse.go builds it)\<close>

text \<open>
  A \<^verbatim>\<open>*jen.Statement\<close> is a list of items, each appended by one builder call. An item
  that is itself a statement is \<open>jen_Statement\<close>, and a nil statement passed as an item
  is \<open>jen_nil\<close> (jen renders nothing for it). A literal carries the kind of the Go
  value handed to \<^verbatim>\<open>jen.Lit\<close> and the value. A \<^verbatim>\<open>jen.Dict\<close> is the list of its
  key and value pairs in the order of insertion; jen orders the pairs by their rendered
  keys when it prints them.
\<close>

datatype code =
  jen_Op string
| jen_Id string
| jen_Qual string string
| jen_Lit kind scalar
| jen_LitNil
| jen_Comment string
| jen_Line
| jen_Func
| jen_Var
| jen_Chan
| jen_Byte
| jen_Index "code list"
| jen_Map code
| jen_Parens code
| jen_Call "code list"
| jen_Params "code list"
| jen_Values "code list"
| jen_Block "code list"
| jen_Return "code list"
| jen_Struct "code list"
| jen_Dict "(code \<times> code) list"
| jen_Statement "code list"
| jen_nil

text \<open>A statement pointer used as an item: nil or the statement.\<close>

fun Code :: "code list option \<Rightarrow> code" where
  "Code None = jen_nil"
| "Code (Some s) = jen_Statement s"

text \<open>
  \<^verbatim>\<open>d[key] = value\<close> on a \<^verbatim>\<open>jen.Dict\<close>. The keys are statement pointers, each freshly
  built, so an assignment adds a pair; only nil keys are equal to each other, and a
  second nil key overwrites the value of the first.
\<close>

fun dictSet :: "(code \<times> code) list \<Rightarrow> code \<Rightarrow> code \<Rightarrow> (code \<times> code) list" where
  "dictSet [] k x = [(k, x)]"
| "dictSet ((k', x') # d) k x =
     (if k = jen_nil \<and> k' = jen_nil then (k', x) # d else (k', x') # dictSet d k x)"

text \<open>
  What jen prints of a statement. A nil statement prints nothing, and neither does a
  statement or a dictionary all of whose parts print nothing (\<^verbatim>\<open>isNull\<close> in jen);
  every other item prints some text.
\<close>

fun isNull :: "code \<Rightarrow> bool" where
  "isNull jen_nil = True"
| "isNull (jen_Statement s) = list_all isNull s"
| "isNull (jen_Dict d) = list_all (\<lambda>kv. isNull (fst kv) \<or> isNull (snd kv)) d"
| "isNull c = False"

text \<open>
  When jen prints a \<^verbatim>\<open>jen.Dict\<close> it leaves out every pair whose key or value prints
  nothing, and orders the other pairs by the text of their keys. \<open>printedPairs\<close> are
  the pairs of a dictionary that are printed.
\<close>

definition printable :: "code \<times> code \<Rightarrow> bool" where
  "printable kv \<longleftrightarrow> \<not> isNull (fst kv) \<and> \<not> isNull (snd kv)"

definition printedPairs :: "(code \<times> code) list \<Rightarrow> (code \<times> code) list" where
  "printedPairs d = filter printable d"

section \<open>The serializer (traverse.go)\<close>

text \<open>
  \<^verbatim>\<open>imports.Qual(pkg, name)\<close> registers the package with \<^verbatim>\<open>NeedImport\<close>, drops the
  alias and returns \<^verbatim>\<open>jen.Qual(pkg, name)\<close>. The statements the serializer builds
  therefore do not depend on the registry, and the serializer is modelled by the
  statements it returns; \<open>Qual\<close> below gives both results of the method.
\<close>

definition Qual :: "string \<Rightarrow> string \<Rightarrow> importsList \<Rightarrow> code list \<times> importsList" where
  "Qual pkg name l = ([jen_Qual pkg name], snd (NeedImport pkg l))"

fun Capitalize :: "string \<Rightarrow> string" where
  "Capitalize [] = []"
| "Capitalize (c # cs) =
     (if 97 \<le> (of_char c :: nat) \<and> (of_char c :: nat) \<le> 122
      then char_of ((of_char c :: nat) - 32) # cs
      else c # cs)"

fun generateType :: "rtype \<Rightarrow> code list option" where
  "generateType (PtrTo e) = Some [jen_Op ''*'', Code (generateType e)]"
| "generateType (SliceOf e) = Some [jen_Index [], Code (generateType e)]"
| "generateType (ArrayOf n e) =
     Some [jen_Index [jen_Statement [jen_Lit reflect_Int (S_int (int n))]],
           Code (generateType e)]"
| "generateType (MapOf k e) = Some [jen_Map (Code (generateType k)), Code (generateType e)]"
| "generateType (StructType pkg name flds ms pms) = Some [jen_Qual pkg name]"
| "generateType (ChanOf e) = Some [jen_Chan, Code (generateType e)]"
| "generateType FuncType = None"
| "generateType (Basic k pkg name) =
     (if IsCustomType (Basic k pkg name) then Some [jen_Qual pkg name]
      else Some [jen_Id (kind_String k)])"

text \<open>
  The accessors \<^verbatim>\<open>v.Bool()\<close>, \<^verbatim>\<open>v.Int()\<close>, \<^verbatim>\<open>v.Uint()\<close>, \<^verbatim>\<open>v.Float()\<close> and
  \<^verbatim>\<open>v.String()\<close>, followed by \<^verbatim>\<open>jen.Lit\<close> of the value converted to the Go type of
  kind \<open>k\<close>. The conversion does not change the value of a value of that kind. A value
  that does not hold what its kind says cannot arise in Go; reflect would panic.
\<close>

fun litBool :: "kind \<Rightarrow> rvalue \<Rightarrow> error + code list" where
  "litBool k (Scalar t (S_bool b)) = Inr [jen_Lit k (S_bool (if b then True else False))]"
| "litBool k v = Inl (Panic ''reflect: call of reflect.Value.Bool on a value of another kind'')"

fun litInt :: "kind \<Rightarrow> rvalue \<Rightarrow> error + code list" where
  "litInt k (Scalar t (S_int i)) = Inr [jen_Lit k (S_int i)]"
| "litInt k v = Inl (Panic ''reflect: call of reflect.Value.Int on a value of another kind'')"

fun litUint :: "kind \<Rightarrow> rvalue \<Rightarrow> error + code list" where
  "litUint k (Scalar t (S_uint n)) = Inr [jen_Lit k (S_uint n)]"
| "litUint k v = Inl (Panic ''reflect: call of reflect.Value.Uint on a value of another kind'')"

fun litFloat :: "kind \<Rightarrow> rvalue \<Rightarrow> error + code list" where
  "litFloat k (Scalar t (S_float bits)) = Inr [jen_Lit k (S_float bits)]"
| "litFloat k v = Inl (Panic ''reflect: call of reflect.Value.Float on a value of another kind'')"

fun litString :: "kind \<Rightarrow> rvalue \<Rightarrow> error + code list" where
  "litString k (Scalar t (S_string str)) = Inr [jen_Lit k (S_string str)]"
| "litString k v = Inl (Panic ''reflect: call of reflect.Value.String on a value of another kind'')"

definition generateBuiltinLiteralValue :: "rvalue \<Rightarrow> error + code list" where
  "generateBuiltinLiteralValue v =
     (case Kind (Type_of v) of
        reflect_Bool \<Rightarrow> litBool reflect_Bool v
      | reflect_Int \<Rightarrow> litInt reflect_Int v
      | reflect_Int8 \<Rightarrow> litInt reflect_Int8 v
      | reflect_Int16 \<Rightarrow> litInt reflect_Int16 v
      | reflect_Int32 \<Rightarrow> litInt reflect_Int32 v
      | reflect_Int64 \<Rightarrow> litInt reflect_Int64 v
      | reflect_Uint \<Rightarrow> litUint reflect_Uint v
      | reflect_Uint8 \<Rightarrow> litUint reflect_Uint8 v
      | reflect_Uint16 \<Rightarrow> litUint reflect_Uint16 v
      | reflect_Uint32 \<Rightarrow> litUint reflect_Uint32 v
      | reflect_Uint64 \<Rightarrow> litUint reflect_Uint64 v
      | reflect_Float32 \<Rightarrow> litFloat reflect_Float32 v
      | reflect_Float64 \<Rightarrow> litFloat reflect_Float64 v
      | reflect_String \<Rightarrow> litString reflect_String v
      | reflect_Uintptr \<Rightarrow> litUint reflect_Uintptr v
      | _ \<Rightarrow> Inr [jen_LitNil])"

definition generatePtrLiteralValue :: "rvalue \<Rightarrow> error + code list option" where
  "generatePtrLiteralValue v =
     (let t = Type_of v
      in if \<not> IsLiteralType t then Inr None
         else case generateBuiltinLiteralValue v of
           Inl err \<Rightarrow> Inl err
         | Inr val \<Rightarrow>
             (let p = [jen_Qual ''github.com/zoumo/golib/pointer''
                         (Capitalize (kind_String (Kind t))),
                       jen_Call [jen_Statement val]]
              in if IsCustomType t
                 then Inr (Some [jen_Parens (jen_Statement
                                   [jen_Op ''*'', jen_Qual (PkgPath t) (Name t)]),
                                 jen_Parens (jen_Statement p)])
                 else Inr (Some p)))"

definition generateLiteralValue :: "rvalue \<Rightarrow> error + code list option" where
  "generateLiteralValue v =
     (let t = Type_of v
      in if \<not> IsLiteralType t then Inr None
         else case generateBuiltinLiteralValue v of
           Inl err \<Rightarrow> Inl err
         | Inr ts \<Rightarrow>
             if IsCustomType t
             then Inr (Some [jen_Qual (PkgPath t) (Name t), jen_Parens (jen_Statement ts)])
             else Inr (Some ts))"

text \<open>
  \<^verbatim>\<open>json.Marshal(v.Interface())\<close> is a parameter of the serializer, \<open>marshal\<close>: the
  text it returns, the empty text when it fails (the error is dropped).
\<close>

definition generateStructWithUnexportedField ::
  "(rvalue \<Rightarrow> string) \<Rightarrow> rvalue \<Rightarrow> bool \<Rightarrow> code list option"
  where
  "generateStructWithUnexportedField marshal v ptrResult =
     (let t = Type_of v
      in if Kind t \<noteq> reflect_Struct then None
         else let structS = [jen_Qual (PkgPath t) (Name t)];
                  ptrT = PtrTo t
              in if (Implements t json_Marshaler \<or> Implements ptrT json_Marshaler)
                    \<and> (Implements t json_Unmarshaler \<or> Implements ptrT json_Unmarshaler)
                 then Some
                   ([jen_Func, jen_Params []]
                    @ (if ptrResult then [jen_Op ''*''] else [])
                    @ [jen_Statement structS,
                       jen_Block
                         [jen_Statement [jen_Id ''jsonStr'', jen_Op '':='',
                                         jen_Lit reflect_String (S_string (marshal v))],
                          jen_Statement [jen_Var, jen_Id ''obj'', jen_Statement structS],
                          jen_Statement
                            [jen_Qual ''encoding/json'' ''Unmarshal'',
                             jen_Call
                               [jen_Statement [jen_Index [], jen_Byte,
                                               jen_Parens (jen_Statement [jen_Id ''jsonStr''])],
                                jen_Statement [jen_Op ''&'', jen_Id ''obj'']]],
                          if ptrResult
                          then jen_Statement
                                 [jen_Return [jen_Statement [jen_Op ''&'', jen_Id ''obj'']]]
                          else jen_Statement [jen_Return [jen_Statement [jen_Id ''obj'']]]],
                       jen_Call []])
                 else None)"

text \<open>\<^verbatim>\<open>t.Elem()\<close> of a pointer type.\<close>

fun Elem_type :: "rtype \<Rightarrow> rtype" where
  "Elem_type (PtrTo e) = e"
| "Elem_type (SliceOf e) = e"
| "Elem_type (ArrayOf n e) = e"
| "Elem_type (MapOf k e) = e"
| "Elem_type (ChanOf e) = e"
| "Elem_type t = t"

text \<open>
  \<^verbatim>\<open>ts.Values(...)\<close> and \<^verbatim>\<open>ts.ValuesFunc(...)\<close> once the items are there: the grp
  is appended to the statement \<open>ts\<close>.
\<close>

definition Values :: "code list option \<Rightarrow> error + code list \<Rightarrow> error + code list option" where
  "Values ts items =
     (case items of
        Inl err \<Rightarrow> Inl err
      | Inr grp \<Rightarrow>
          (case ts of
             None \<Rightarrow> Inl (Panic ''nil pointer dereference'')
           | Some s \<Rightarrow> Inr (Some (s @ [jen_Values grp]))))"

definition asDict :: "error + (code \<times> code) list \<Rightarrow> error + code list" where
  "asDict d = (case d of Inl err \<Rightarrow> Inl err | Inr pairs \<Rightarrow> Inr [jen_Dict pairs])"

text \<open>
  The serializer proper. \<^verbatim>\<open>generateValue\<close>, \<^verbatim>\<open>generatePtrValue\<close> and
  \<^verbatim>\<open>generateStructValue\<close> call each other; the three function literals that fill a
  group or a dictionary are \<open>elementsFunc\<close> (slices and arrays), \<open>entriesFunc\<close> (maps)
  and \<open>fieldsFunc\<close> (structs), each with its loop. A result is \<open>Inl\<close> of a panic or
  \<open>Inr\<close> of the statement pointer returned (\<open>None\<close> is nil). A nil pointer has no
  pointee: \<^verbatim>\<open>v.Elem()\<close> is then the zero Value, and the call of \<^verbatim>\<open>Type\<close> on it
  that opens every function panics.
\<close>

function (sequential) generateValue :: "(rvalue \<Rightarrow> string) \<Rightarrow> rvalue \<Rightarrow> bool \<Rightarrow> error + code list option"
  and generatePtrValue ::
    "(rvalue \<Rightarrow> string) \<Rightarrow> rvalue \<Rightarrow> bool \<Rightarrow> error + code list option"
  and generateStructValue ::
    "(rvalue \<Rightarrow> string) \<Rightarrow> rvalue \<Rightarrow> bool \<Rightarrow> bool \<Rightarrow> error + code list option"
  and elementsFunc :: "(rvalue \<Rightarrow> string) \<Rightarrow> rvalue \<Rightarrow> error + code list"
  and elementsLoop :: "(rvalue \<Rightarrow> string) \<Rightarrow> rvalue list \<Rightarrow> error + code list"
  and entriesFunc :: "(rvalue \<Rightarrow> string) \<Rightarrow> rvalue \<Rightarrow> error + (code \<times> code) list"
  and entriesLoop ::
    "(rvalue \<Rightarrow> string) \<Rightarrow> (rvalue \<times> rvalue) list \<Rightarrow> (code \<times> code) list
     \<Rightarrow> error + (code \<times> code) list"
  and fieldsFunc :: "(rvalue \<Rightarrow> string) \<Rightarrow> rvalue \<Rightarrow> error + (code \<times> code) list"
  and fieldsLoop ::
    "(rvalue \<Rightarrow> string) \<Rightarrow> rtype StructField list \<Rightarrow> rvalue list \<Rightarrow> (code \<times> code) list
     \<Rightarrow> error + (code \<times> code) list"
  where
  "generateValue marshal v omitType =
     (let t = Type_of v
      in if IsLiteralType t then generateLiteralValue v
         else let ts = (if omitType then Some [] else generateType t)
              in case Kind t of
                   reflect_Ptr \<Rightarrow> generatePtrValue marshal v omitType
                 | reflect_Slice \<Rightarrow> Values ts (elementsFunc marshal v)
                 | reflect_Array \<Rightarrow> Values ts (elementsFunc marshal v)
                 | reflect_Map \<Rightarrow> Values ts (asDict (entriesFunc marshal v))
                 | reflect_Struct \<Rightarrow> generateStructValue marshal v False omitType
                 | _ \<Rightarrow> Inr None)"
| "generatePtrValue marshal (Pointer t (Some (addr, elem))) omitType =
     (if Kind t \<noteq> reflect_Ptr then Inr None
      else let te = Elem_type t
           in if IsLiteralType te then generatePtrLiteralValue elem
              else if Kind te = reflect_Struct
              then generateStructValue marshal elem True omitType
              else case (if omitType then generateValue marshal elem True else Inr None) of
                     Inl err \<Rightarrow> Inl err
                   | Inr unused \<Rightarrow>
                       (case generateValue marshal elem False of
                          Inl err \<Rightarrow> Inl err
                        | Inr x \<Rightarrow> Inr (Some [jen_Op ''&'', Code x])))"
| "generatePtrValue marshal v omitType =
     (if Kind (Type_of v) \<noteq> reflect_Ptr then Inr None
      else Inl (Panic ''reflect: call of reflect.Value.Type on zero Value''))"
| "generateStructValue marshal v ptrResult omitType =
     (let t = Type_of v
      in if Kind t \<noteq> reflect_Struct then Inr None
         else case (if HasUnexportedField t
                    then generateStructWithUnexportedField marshal v ptrResult
                    else None) of
                Some j \<Rightarrow> Inr (Some j)
              | None \<Rightarrow>
                  (let ts = (if IsAnonymousStruct t
                             then [jen_Struct
                                     (map (\<lambda>field. jen_Statement
                                             [jen_Id (field_Name field),
                                              Code (generateType (field_Type field))])
                                        (Fields t))]
                             else [jen_Qual (PkgPath t) (Name t)]);
                       ts1 = (if ptrResult then [jen_Op ''&'', jen_Statement ts] else ts);
                       ts2 = (if omitType then [] else ts1)
                   in Values (Some ts2) (asDict (fieldsFunc marshal v))))"
| "elementsFunc marshal (SliceV t None) = Inr []"
| "elementsFunc marshal (SliceV t (Some es)) =
     (case elementsLoop marshal es of
        Inl err \<Rightarrow> Inl err
      | Inr grp \<Rightarrow> Inr (grp @ (if length es > 0 then [jen_Statement [jen_Line]] else [])))"
| "elementsFunc marshal (ArrayV t es) =
     (case elementsLoop marshal es of
        Inl err \<Rightarrow> Inl err
      | Inr grp \<Rightarrow> Inr (grp @ (if length es > 0 then [jen_Statement [jen_Line]] else [])))"
| "elementsFunc marshal v =
     Inl (Panic ''reflect: call of reflect.Value.Len on a value of another kind'')"
| "elementsLoop marshal [] = Inr []"
| "elementsLoop marshal (e # es) =
     (case generateValue marshal e True of
        Inl err \<Rightarrow> Inl err
      | Inr x \<Rightarrow>
          (case elementsLoop marshal es of
             Inl err \<Rightarrow> Inl err
           | Inr grp \<Rightarrow> Inr (jen_Statement [jen_Line, Code x] # grp)))"
| "entriesFunc marshal (MapV t None) = Inr []"
| "entriesFunc marshal (MapV t (Some kvs)) = entriesLoop marshal kvs []"
| "entriesFunc marshal v =
     Inl (Panic ''reflect: call of reflect.Value.MapRange on a value of another kind'')"
| "entriesLoop marshal [] d = Inr d"
| "entriesLoop marshal ((kv, vv) # kvs) d =
     (case generateValue marshal kv False of
        Inl err \<Rightarrow> Inl err
      | Inr k \<Rightarrow>
          (case generateValue marshal vv True of
             Inl err \<Rightarrow> Inl err
           | Inr x \<Rightarrow> entriesLoop marshal kvs (dictSet d (Code k) (Code x))))"
| "fieldsFunc marshal (StructV t xs) = fieldsLoop marshal (Fields t) xs []"
| "fieldsFunc marshal v = fieldsLoop marshal (Fields (Type_of v)) [] []"
| "fieldsLoop marshal [] xs d = Inr d"
| "fieldsLoop marshal (field # flds) [] d =
     (if IsUnexportedField field \<or> IsAnonymousStruct (field_Type field)
      then fieldsLoop marshal flds [] d
      else Inl (Panic ''reflect: Field index out of range''))"
| "fieldsLoop marshal (field # flds) (x # xs) d =
     (if IsUnexportedField field \<or> IsAnonymousStruct (field_Type field)
      then fieldsLoop marshal flds xs d
      else if \<not> IsZero x
      then (case generateValue marshal x False of
              Inl err \<Rightarrow> Inl err
            | Inr r \<Rightarrow>
                fieldsLoop marshal flds xs
                  (dictSet d (jen_Statement [jen_Id (field_Name field)]) (Code r)))
      else fieldsLoop marshal flds xs d)"

  by pat_completeness auto


termination
  by (relation "measures
    [\<lambda>x. case x of
        Inl (Inl (Inl (m, v, omitType))) \<Rightarrow> 4 * size v + 3
      | Inl (Inl (Inr (m, v, omitType))) \<Rightarrow> 4 * size v + 2
      | Inl (Inr (Inl (m, v, ptrResult, omitType))) \<Rightarrow> 4 * size v + 2
      | Inl (Inr (Inr (m, v))) \<Rightarrow> 4 * size v + 1
      | Inr (Inl (Inl (m, es))) \<Rightarrow> 4 * size_list size es
      | Inr (Inl (Inr (m, v))) \<Rightarrow> 4 * size v + 1
      | Inr (Inr (Inl (m, kvs, d))) \<Rightarrow> 4 * size_list (size_prod size size) kvs
      | Inr (Inr (Inr (Inl (m, v)))) \<Rightarrow> 4 * size v + 1
      | Inr (Inr (Inr (Inr (m, flds, xs, d)))) \<Rightarrow> 4 * size_list size xs,
     \<lambda>x. case x of
        Inr (Inr (Inr (Inr (m, flds, xs, d)))) \<Rightarrow> length flds
      | _ \<Rightarrow> 0]")
    simp_all

declare generateValue.simps [simp del]
declare generateStructValue.simps [simp del]


text \<open>
  A scalar value holds what its kind says: a boolean for \<^verbatim>\<open>Bool\<close>, a signed integer
  for the \<^verbatim>\<open>Int\<close> kinds, and so on. Every scalar value that Go can build is of this
  form.
\<close>

definition scalarOfKind :: "kind \<Rightarrow> scalar \<Rightarrow> bool" where
  "scalarOfKind k s =
     (case s of
        S_bool b \<Rightarrow> k = reflect_Bool
      | S_int i \<Rightarrow>
          k \<in> {reflect_Int, reflect_Int8, reflect_Int16, reflect_Int32, reflect_Int64}
      | S_uint n \<Rightarrow>
          k \<in> {reflect_Uint, reflect_Uint8, reflect_Uint16, reflect_Uint32, reflect_Uint64,
               reflect_Uintptr}
      | S_float bits \<Rightarrow> k \<in> {reflect_Float32, reflect_Float64}
      | S_string str \<Rightarrow> k = reflect_String)"

text \<open>
  The condition under which \<^verbatim>\<open>generateStructValue\<close> returns what
  \<^verbatim>\<open>generateStructWithUnexportedField\<close> built (traverse.go lines 253 to 258 and 307
  to 308): a struct type with an unexported field such that the type or a pointer to it
  implements \<^verbatim>\<open>json.Marshaler\<close>, and the type or a pointer to it implements
  \<^verbatim>\<open>json.Unmarshaler\<close>.
\<close>

definition fallbackApplies :: "rtype \<Rightarrow> bool" where
  "fallbackApplies t \<longleftrightarrow>
     Kind t = reflect_Struct \<and> HasUnexportedField t
     \<and> (Implements t json_Marshaler \<or> Implements (PtrTo t) json_Marshaler)
     \<and> (Implements t json_Unmarshaler \<or> Implements (PtrTo t) json_Unmarshaler)"

text \<open>
  What one field adds to the dictionary of a struct literal, as the spec describes it: a
  pair of the field's name and its serialized value when the field is exported, is not of
  anonymous struct type and is not the zero value, and nothing otherwise.
\<close>

definition fieldEntry ::
  "(rvalue \<Rightarrow> string) \<Rightarrow> rtype StructField \<Rightarrow> rvalue \<Rightarrow> (code \<times> code) list" where
  "fieldEntry marshal field x =
     (if \<not> IsUnexportedField field \<and> \<not> IsAnonymousStruct (field_Type field) \<and> \<not> IsZero x
      then [(jen_Statement [jen_Id (field_Name field)],
             Code (projr (generateValue marshal x False)))]
      else [])"

text \<open>
  The kinds for which \<^verbatim>\<open>generateValue\<close> returns nil: they are not literal kinds, and
  the \<^verbatim>\<open>switch\<close> of traverse.go lines 103 to 129 has no case for them or an empty one.
\<close>

definition skippedKind :: "kind \<Rightarrow> bool" where
  "skippedKind k \<longleftrightarrow>
     k \<in> {reflect_Chan, reflect_Func, reflect_Interface, reflect_Complex64,
          reflect_Complex128, reflect_UnsafePointer}"

text \<open>
  The pointee of a pointer value has the element type of the pointer's type, as it has
  for every value that Go can build.
\<close>

definition pointeeTyped :: "rvalue \<Rightarrow> bool" where
  "pointeeTyped v =
     (case v of
        Pointer t (Some (addr, elem)) \<Rightarrow> Type_of elem = Elem_type t
      | _ \<Rightarrow> True)"

section \<open>Writing the descriptors (gen.go, GenerateCrds)\<close>









section \<open>Two runs on the same descriptors\<close>









section \<open>Properties of the trivial-version collapse\<close>

lemma versionsLoop_versions:
  "snd (versionsLoop vs canonical) = map clearVersion vs"
  by (induction vs arbitrary: canonical) (simp_all add: Let_def case_prod_beta)

lemma versionsLoop_no_storage:
  "\<forall>v \<in> set vs. \<not> ver_Storage v \<Longrightarrow> fst (versionsLoop vs canonical) = canonical"
  by (induction vs arbitrary: canonical) (simp_all add: Let_def case_prod_beta)

lemma versionsLoop_one_storage:
  "filter ver_Storage vs = [v] \<Longrightarrow>
   fst (versionsLoop vs canonical) =
     (ver_Schema v, ver_Subresources v, ver_AdditionalPrinterColumns v)"
proof (induction vs arbitrary: canonical)
  case Nil
  then show ?case by simp
next
  case (Cons a vs)
  show ?case
  proof (cases "ver_Storage a")
    case True
    with Cons.prems have "a = v" and "filter ver_Storage vs = []" by simp_all
    then have "\<forall>w \<in> set vs. \<not> ver_Storage w" by (simp add: filter_empty_conv)
    from versionsLoop_no_storage [OF this] True \<open>a = v\<close> show ?thesis
      by (simp add: Let_def case_prod_beta)
  next
    case False
    with Cons.prems have "filter ver_Storage vs = [v]" by simp
    from Cons.IH [OF this] False show ?thesis
      by (simp add: Let_def case_prod_beta)
  qed
qed

text \<open>
  Claim C4, as the code has it. If exactly one version \<open>v\<close> is marked as the storage
  version and its schema is set (not nil), \<^verbatim>\<open>toTrivialVersions\<close> sets the top-level
  validation, subresources and printer columns to the original schema, subresources and
  columns of \<open>v\<close>, and every version, the storage version included, has its three
  per-version fields cleared.
\<close>

theorem toTrivialVersions_promotes_storage:
  assumes "filter ver_Storage (spec_Versions (Spec crd)) = [v]"
    and "ver_Schema v \<noteq> None"
  shows "spec_Validation (Spec (toTrivialVersions crd)) = ver_Schema v
       \<and> spec_Subresources (Spec (toTrivialVersions crd)) = ver_Subresources v
       \<and> spec_AdditionalPrinterColumns (Spec (toTrivialVersions crd)) =
           ver_AdditionalPrinterColumns v
       \<and> spec_Versions (Spec (toTrivialVersions crd)) =
           map clearVersion (spec_Versions (Spec crd))"
proof -
  obtain final versions where
    loop: "versionsLoop (spec_Versions (Spec crd)) (None, None, None) = (final, versions)"
    by (cases "versionsLoop (spec_Versions (Spec crd)) (None, None, None)")
  from versionsLoop_one_storage [OF assms(1), of "(None, None, None)"] loop
  have final: "final = (ver_Schema v, ver_Subresources v, ver_AdditionalPrinterColumns v)"
    by simp
  from versionsLoop_versions [of "spec_Versions (Spec crd)" "(None, None, None)"] loop
  have versions: "versions = map clearVersion (spec_Versions (Spec crd))"
    by simp
  from assms(2) show ?thesis
    by (auto simp add: toTrivialVersions_def Let_def loop final versions)
qed

theorem toTrivialVersions_promotes_storage_witness:
  "filter ver_Storage (spec_Versions (Spec
      \<lparr>Spec = \<lparr>spec_Validation = None, spec_Subresources = None,
        spec_Versions =
          [\<lparr>ver_Name = ''v1'', ver_Served = True, ver_Storage = False,
            ver_Schema = Some (1::nat), ver_Subresources = Some (10::nat),
            ver_AdditionalPrinterColumns = Some [100::nat]\<rparr>,
           \<lparr>ver_Name = ''v1beta1'', ver_Served = True, ver_Storage = True,
            ver_Schema = Some 2, ver_Subresources = Some 20,
            ver_AdditionalPrinterColumns = Some [200, 201]\<rparr>],
        spec_AdditionalPrinterColumns = None, spec_PreserveUnknownFields = None\<rparr>\<rparr>))
    = [\<lparr>ver_Name = ''v1beta1'', ver_Served = True, ver_Storage = True,
        ver_Schema = Some 2, ver_Subresources = Some 20,
        ver_AdditionalPrinterColumns = Some [200, 201]\<rparr>]
   \<and> toTrivialVersions
      \<lparr>Spec = \<lparr>spec_Validation = None, spec_Subresources = None,
        spec_Versions =
          [\<lparr>ver_Name = ''v1'', ver_Served = True, ver_Storage = False,
            ver_Schema = Some (1::nat), ver_Subresources = Some (10::nat),
            ver_AdditionalPrinterColumns = Some [100::nat]\<rparr>,
           \<lparr>ver_Name = ''v1beta1'', ver_Served = True, ver_Storage = True,
            ver_Schema = Some 2, ver_Subresources = Some 20,
            ver_AdditionalPrinterColumns = Some [200, 201]\<rparr>],
        spec_AdditionalPrinterColumns = None, spec_PreserveUnknownFields = None\<rparr>\<rparr>
    = \<lparr>Spec = \<lparr>spec_Validation = Some 2, spec_Subresources = Some 20,
        spec_Versions =
          [\<lparr>ver_Name = ''v1'', ver_Served = True, ver_Storage = False,
            ver_Schema = None, ver_Subresources = None,
            ver_AdditionalPrinterColumns = None\<rparr>,
           \<lparr>ver_Name = ''v1beta1'', ver_Served = True, ver_Storage = True,
            ver_Schema = None, ver_Subresources = None,
            ver_AdditionalPrinterColumns = None\<rparr>],
        spec_AdditionalPrinterColumns = Some [200, 201],
        spec_PreserveUnknownFields = None\<rparr>\<rparr>"
  using toTrivialVersions_promotes_storage
    [of "\<lparr>Spec = \<lparr>spec_Validation = None, spec_Subresources = None,
        spec_Versions =
          [\<lparr>ver_Name = ''v1'', ver_Served = True, ver_Storage = False,
            ver_Schema = Some (1::nat), ver_Subresources = Some (10::nat),
            ver_AdditionalPrinterColumns = Some [100::nat]\<rparr>,
           \<lparr>ver_Name = ''v1beta1'', ver_Served = True, ver_Storage = True,
            ver_Schema = Some 2, ver_Subresources = Some 20,
            ver_AdditionalPrinterColumns = Some [200, 201]\<rparr>],
        spec_AdditionalPrinterColumns = None, spec_PreserveUnknownFields = None\<rparr>\<rparr>"
        "\<lparr>ver_Name = ''v1beta1'', ver_Served = True, ver_Storage = True,
        ver_Schema = Some 2, ver_Subresources = Some 20,
        ver_AdditionalPrinterColumns = Some [200, 201]\<rparr>"]
  by (simp add: toTrivialVersions_def Let_def clearVersion_def)

text \<open>
  The claim as the spec states it fails when the storage version has no schema of its
  own: the guard \<^verbatim>\<open>if canonicalSchema == nil { return }\<close> leaves the top-level fields
  as they were. Here the one storage version has a nil schema and subresources 20; the
  top-level validation stays 5 (not nil) and the top-level subresources stay nil (not 20).
\<close>

theorem toTrivialVersions_nil_schema_counterexample:
  "filter ver_Storage (spec_Versions (Spec
      \<lparr>Spec = \<lparr>spec_Validation = Some (5::nat), spec_Subresources = None,
        spec_Versions =
          [\<lparr>ver_Name = ''v1'', ver_Served = True, ver_Storage = False,
            ver_Schema = Some 1, ver_Subresources = Some (10::nat),
            ver_AdditionalPrinterColumns = Some [100::nat]\<rparr>,
           \<lparr>ver_Name = ''v1beta1'', ver_Served = True, ver_Storage = True,
            ver_Schema = None, ver_Subresources = Some 20,
            ver_AdditionalPrinterColumns = None\<rparr>],
        spec_AdditionalPrinterColumns = None, spec_PreserveUnknownFields = None\<rparr>\<rparr>))
    = [\<lparr>ver_Name = ''v1beta1'', ver_Served = True, ver_Storage = True,
        ver_Schema = None, ver_Subresources = Some 20,
        ver_AdditionalPrinterColumns = None\<rparr>]
   \<and> spec_Validation (Spec (toTrivialVersions
      \<lparr>Spec = \<lparr>spec_Validation = Some (5::nat), spec_Subresources = None,
        spec_Versions =
          [\<lparr>ver_Name = ''v1'', ver_Served = True, ver_Storage = False,
            ver_Schema = Some 1, ver_Subresources = Some (10::nat),
            ver_AdditionalPrinterColumns = Some [100::nat]\<rparr>,
           \<lparr>ver_Name = ''v1beta1'', ver_Served = True, ver_Storage = True,
            ver_Schema = None, ver_Subresources = Some 20,
            ver_AdditionalPrinterColumns = None\<rparr>],
        spec_AdditionalPrinterColumns = None, spec_PreserveUnknownFields = None\<rparr>\<rparr>))
    = Some 5
   \<and> spec_Subresources (Spec (toTrivialVersions
      \<lparr>Spec = \<lparr>spec_Validation = Some (5::nat), spec_Subresources = None,
        spec_Versions =
          [\<lparr>ver_Name = ''v1'', ver_Served = True, ver_Storage = False,
            ver_Schema = Some 1, ver_Subresources = Some (10::nat),
            ver_AdditionalPrinterColumns = Some [100::nat]\<rparr>,
           \<lparr>ver_Name = ''v1beta1'', ver_Served = True, ver_Storage = True,
            ver_Schema = None, ver_Subresources = Some 20,
            ver_AdditionalPrinterColumns = None\<rparr>],
        spec_AdditionalPrinterColumns = None, spec_PreserveUnknownFields = None\<rparr>\<rparr>))
    = None"
  by (simp add: toTrivialVersions_def Let_def clearVersion_def)

text \<open>
  Claim C10. If no version is marked as the storage version, \<^verbatim>\<open>toTrivialVersions\<close>
  still clears the schema, subresources and printer columns of every version, and the
  top-level validation, subresources and printer columns stay as they were: the
  per-version data is dropped and nothing is promoted.
\<close>

theorem toTrivialVersions_no_storage:
  assumes "\<forall>v \<in> set (spec_Versions (Spec crd)). \<not> ver_Storage v"
  shows "toTrivialVersions crd =
           crd\<lparr>Spec := (Spec crd)
             \<lparr>spec_Versions := map clearVersion (spec_Versions (Spec crd))\<rparr>\<rparr>
       \<and> spec_Validation (Spec (toTrivialVersions crd)) = spec_Validation (Spec crd)
       \<and> spec_Subresources (Spec (toTrivialVersions crd)) = spec_Subresources (Spec crd)
       \<and> spec_AdditionalPrinterColumns (Spec (toTrivialVersions crd)) =
           spec_AdditionalPrinterColumns (Spec crd)
       \<and> list_all (\<lambda>ver. ver_Schema ver = None \<and> ver_Subresources ver = None
                     \<and> ver_AdditionalPrinterColumns ver = None)
           (spec_Versions (Spec (toTrivialVersions crd)))"
proof -
  obtain final versions where
    loop: "versionsLoop (spec_Versions (Spec crd)) (None, None, None) = (final, versions)"
    by (cases "versionsLoop (spec_Versions (Spec crd)) (None, None, None)")
  from versionsLoop_no_storage [OF assms, of "(None, None, None)"] loop
  have final: "final = (None, None, None)"
    by simp
  from versionsLoop_versions [of "spec_Versions (Spec crd)" "(None, None, None)"] loop
  have versions: "versions = map clearVersion (spec_Versions (Spec crd))"
    by simp
  show ?thesis
    by (simp add: toTrivialVersions_def Let_def loop final versions list_all_iff clearVersion_def)
qed

theorem toTrivialVersions_no_storage_witness:
  "list_all (\<lambda>v. \<not> ver_Storage v)
      [\<lparr>ver_Name = ''v1'', ver_Served = True, ver_Storage = False,
        ver_Schema = Some (1::nat), ver_Subresources = Some (10::nat),
        ver_AdditionalPrinterColumns = Some [100::nat]\<rparr>,
       \<lparr>ver_Name = ''v1beta1'', ver_Served = True, ver_Storage = False,
        ver_Schema = Some 2, ver_Subresources = None,
        ver_AdditionalPrinterColumns = None\<rparr>]
   \<and> toTrivialVersions
      \<lparr>Spec = \<lparr>spec_Validation = None, spec_Subresources = None,
        spec_Versions =
          [\<lparr>ver_Name = ''v1'', ver_Served = True, ver_Storage = False,
            ver_Schema = Some (1::nat), ver_Subresources = Some (10::nat),
            ver_AdditionalPrinterColumns = Some [100::nat]\<rparr>,
           \<lparr>ver_Name = ''v1beta1'', ver_Served = True, ver_Storage = False,
            ver_Schema = Some 2, ver_Subresources = None,
            ver_AdditionalPrinterColumns = None\<rparr>],
        spec_AdditionalPrinterColumns = None, spec_PreserveUnknownFields = None\<rparr>\<rparr>
    = \<lparr>Spec = \<lparr>spec_Validation = None, spec_Subresources = None,
        spec_Versions =
          [\<lparr>ver_Name = ''v1'', ver_Served = True, ver_Storage = False,
            ver_Schema = None, ver_Subresources = None,
            ver_AdditionalPrinterColumns = None\<rparr>,
           \<lparr>ver_Name = ''v1beta1'', ver_Served = True, ver_Storage = False,
            ver_Schema = None, ver_Subresources = None,
            ver_AdditionalPrinterColumns = None\<rparr>],
        spec_AdditionalPrinterColumns = None, spec_PreserveUnknownFields = None\<rparr>\<rparr>"
  using toTrivialVersions_no_storage
    [of "\<lparr>Spec = \<lparr>spec_Validation = None, spec_Subresources = None,
        spec_Versions =
          [\<lparr>ver_Name = ''v1'', ver_Served = True, ver_Storage = False,
            ver_Schema = Some (1::nat), ver_Subresources = Some (10::nat),
            ver_AdditionalPrinterColumns = Some [100::nat]\<rparr>,
           \<lparr>ver_Name = ''v1beta1'', ver_Served = True, ver_Storage = False,
            ver_Schema = Some 2, ver_Subresources = None,
            ver_AdditionalPrinterColumns = None\<rparr>],
        spec_AdditionalPrinterColumns = None, spec_PreserveUnknownFields = None\<rparr>\<rparr>"]
  by (simp add: clearVersion_def)

section \<open>Properties of the generation driver\<close>

lemma convertLoop_error:
  "convertLoop ctx crdRaw vers = Inl e \<Longrightarrow> \<exists>m. e = External m"
  by (induction vers arbitrary: e) (auto split: sum.splits)

lemma onLegacy_error: "onLegacy f crd = Inl e \<Longrightarrow> \<exists>m. e = Panic m"
  by (auto simp: onLegacy_def split: versionedCRD.splits)

lemma trivialLoop_error:
  "trivialLoop vers crds = Inl e \<Longrightarrow> \<exists>m. e = Panic m"
  by (induction vers crds arbitrary: e rule: trivialLoop.induct)
     (auto split: sum.splits if_splits dest: onLegacy_error)

lemma prepareKind_error:
  "prepareKind g ctx vers k = Inl e \<Longrightarrow> \<forall>m. e \<noteq> Errorf m"
  by (auto simp: prepareKind_def Let_def split: sum.splits if_splits
           dest: convertLoop_error trivialLoop_error)

lemma preserveSwitch_error:
  "preserveSwitch g vers crds = Inl e \<Longrightarrow>
     (\<forall>m. e \<noteq> Errorf m) \<or>
     (PreserveUnknownFields g = Some True \<and> \<not> v1beta1Only vers
      \<and> e = Errorf ''you may only set PreserveUnknownFields to true with v1beta1 CRDs'')"
  by (auto simp: preserveSwitch_def split: if_splits list.splits sum.splits
           dest: onLegacy_error)

lemma preserveSwitch_refuses:
  "PreserveUnknownFields g = Some True \<Longrightarrow> \<not> v1beta1Only vers \<Longrightarrow>
   preserveSwitch g vers crds =
     Inl (Errorf ''you may only set PreserveUnknownFields to true with v1beta1 CRDs'')"
  by (simp add: preserveSwitch_def)

lemma kindsLoop_error:
  "kindsLoop g ctx vers kinds crds = Inl e \<Longrightarrow>
     (\<forall>m. e \<noteq> Errorf m) \<or>
     (PreserveUnknownFields g = Some True \<and> \<not> v1beta1Only vers
      \<and> e = Errorf ''you may only set PreserveUnknownFields to true with v1beta1 CRDs'')"
proof (induction kinds arbitrary: crds)
  case Nil
  then show ?case by simp
next
  case (Cons k kinds)
  show ?case
  proof (cases "prepareKind g ctx vers k")
    case (Inl err)
    with Cons.prems have "e = err" by simp
    with prepareKind_error [OF Inl] show ?thesis by simp
  next
    case (Inr vs)
    show ?thesis
    proof (cases "preserveSwitch g vers vs")
      case (Inl err)
      with Inr Cons.prems have "e = err" by simp
      with preserveSwitch_error [OF Inl] show ?thesis by simp
    next
      case (Inr vs')
      with \<open>prepareKind g ctx vers k = Inr vs\<close> Cons.prems
      have "kindsLoop g ctx vers kinds (collect vers vs' crds) = Inl e" by simp
      from Cons.IH [OF this] show ?thesis .
    qed
  qed
qed

text \<open>
  Claim C7, as the code has it. \<^verbatim>\<open>Generate\<close> returns one of its two configuration
  errors exactly when the package name is empty, or when the flag
  \<^verbatim>\<open>PreserveUnknownFields\<close> is explicitly true, the requested versions (an empty list
  standing for v1) are not exactly the single version v1beta1, and the run reaches the
  flag check of the first kind: the header file, if any, could be read, a metav1 package
  and at least one kind were found, and the first kind was converted to every requested
  version without an error.
\<close>

theorem Generate_configuration_error:
  "isConfigurationError (Generate g ctx) \<longleftrightarrow>
     PackageName g = []
     \<or> (PreserveUnknownFields g = Some True \<and> \<not> v1beta1Only (requestedVersions g)
        \<and> reachesSwitch g ctx)"
proof (cases "PackageName g = []")
  case True
  then show ?thesis by (simp add: Generate_def isConfigurationError_def)
next
  case nonempty: False
  show ?thesis
  proof (cases "readHeader g ctx")
    case (Inl err)
    with nonempty show ?thesis
      by (simp add: Generate_def isConfigurationError_def reachesSwitch_def)
  next
    case (Inr headerBytes)
    show ?thesis
    proof (cases "FindMetav1 ctx")
      case False
      with nonempty Inr show ?thesis
        by (simp add: Generate_def isConfigurationError_def reachesSwitch_def)
    next
      case metav1: True
      show ?thesis
      proof (cases "FindKubeKinds ctx")
        case Nil
        with nonempty Inr metav1 show ?thesis
          by (simp add: Generate_def isConfigurationError_def reachesSwitch_def)
      next
        case (Cons k kinds)
        let ?vers = "requestedVersions g"
        let ?msg = "''you may only set PreserveUnknownFields to true with v1beta1 CRDs''"
        have written: "\<not> isConfigurationError (writeFiles ctx cw crds)" for cw crds
          by (simp add: isConfigurationError_def writeFiles_def split: option.splits)
        have "\<exists>cw. Generate g ctx =
          (case kindsLoop g ctx ?vers (k # kinds) fmempty of
             Inl err \<Rightarrow> Some err
           | Inr crds \<Rightarrow> writeFiles ctx cw crds)"
          using nonempty Inr metav1 Cons
          by (auto simp add: Generate_def Let_def simp del: kindsLoop.simps)
        then obtain cw where gen: "Generate g ctx =
          (case kindsLoop g ctx ?vers (k # kinds) fmempty of
             Inl err \<Rightarrow> Some err
           | Inr crds \<Rightarrow> writeFiles ctx cw crds)" ..
        have reach: "reachesSwitch g ctx \<longleftrightarrow> \<not> isl (prepareKind g ctx ?vers k)"
          using Inr metav1 Cons by (simp add: reachesSwitch_def)
        show ?thesis
        proof (cases "prepareKind g ctx ?vers k")
          case (Inl err)
          with prepareKind_error [OF Inl] nonempty reach gen show ?thesis
            by (auto simp add: isConfigurationError_def)
        next
          case prepared: (Inr vs)
          show ?thesis
          proof (cases "PreserveUnknownFields g = Some True \<and> \<not> v1beta1Only ?vers")
            case True
            then have "preserveSwitch g ?vers vs = Inl (Errorf ?msg)"
              by (simp add: preserveSwitch_refuses)
            with prepared gen have "Generate g ctx = Some (Errorf ?msg)" by simp
            with True reach prepared show ?thesis
              by (simp add: isConfigurationError_def)
          next
            case False
            have "\<not> isConfigurationError (Generate g ctx)"
            proof (cases "kindsLoop g ctx ?vers (k # kinds) fmempty")
              case (Inl e)
              from kindsLoop_error [OF Inl] False have "\<forall>m. e \<noteq> Errorf m" by blast
              with gen Inl show ?thesis by (simp add: isConfigurationError_def)
            next
              case (Inr crds)
              with gen written show ?thesis by simp
            qed
            with False nonempty show ?thesis by blast
          qed
        qed
      qed
    qed
  qed
qed

theorem Generate_configuration_error_witness:
  "isConfigurationError (Generate
      \<lparr>TrivialVersions = False, PreserveUnknownFields = Some True,
       AllowDangerousTypes = None, MaxDescLen = None, CRDVersions = [''v1''],
       HeaderFile = [], Year = ''2020'', PackageName = ''crds''\<rparr>
      \<lparr>ReadFile = (\<lambda>name. Inr []), FindMetav1 = True,
       FindKubeKinds = [(''example.com'', ''Widget'')],
       NeedCRDFor = (\<lambda>groupKind maxDescLen. \<lparr>raw_Annotations = None, raw_Body = (0::nat)\<rparr>),
       AsVersion = (\<lambda>crdRaw ver. Inr (V1CRD crdRaw)), Version = ''v0.4.0'',
       GenerateScheme_error = (\<lambda>cw. None),
       GenerateCrds_error = (\<lambda>cw crds. None)\<rparr>)
   \<and> reachesSwitch
      \<lparr>TrivialVersions = False, PreserveUnknownFields = Some True,
       AllowDangerousTypes = None, MaxDescLen = None, CRDVersions = [''v1''],
       HeaderFile = [], Year = ''2020'', PackageName = ''crds''\<rparr>
      \<lparr>ReadFile = (\<lambda>name. Inr []), FindMetav1 = True,
       FindKubeKinds = [(''example.com'', ''Widget'')],
       NeedCRDFor = (\<lambda>groupKind maxDescLen. \<lparr>raw_Annotations = None, raw_Body = (0::nat)\<rparr>),
       AsVersion = (\<lambda>crdRaw ver. Inr (V1CRD crdRaw)), Version = ''v0.4.0'',
       GenerateScheme_error = (\<lambda>cw. None),
       GenerateCrds_error = (\<lambda>cw crds. None)\<rparr>"
  using Generate_configuration_error
    [of "\<lparr>TrivialVersions = False, PreserveUnknownFields = Some True,
       AllowDangerousTypes = None, MaxDescLen = None, CRDVersions = [''v1''],
       HeaderFile = [], Year = ''2020'', PackageName = ''crds''\<rparr>"
      "\<lparr>ReadFile = (\<lambda>name. Inr []), FindMetav1 = True,
       FindKubeKinds = [(''example.com'', ''Widget'')],
       NeedCRDFor = (\<lambda>groupKind maxDescLen. \<lparr>raw_Annotations = None, raw_Body = (0::nat)\<rparr>),
       AsVersion = (\<lambda>crdRaw ver. Inr (V1CRD crdRaw)), Version = ''v0.4.0'',
       GenerateScheme_error = (\<lambda>cw. None),
       GenerateCrds_error = (\<lambda>cw crds. None)\<rparr>"]
  by (simp add: reachesSwitch_def readHeader_def prepareKind_def requestedVersions_def
        v1beta1Only_def)

text \<open>
  The claim as the spec states it fails when the roots hold no kind: the package name is
  set, the flag is explicitly true and the only requested version is v1, yet
  \<^verbatim>\<open>Generate\<close> returns nil at \<^verbatim>\<open>if len(kubeKinds) == 0\<close>, before the flag is looked
  at.
\<close>

theorem Generate_no_kinds_counterexample:
  "PackageName
      \<lparr>TrivialVersions = False, PreserveUnknownFields = Some True,
       AllowDangerousTypes = None, MaxDescLen = None, CRDVersions = [''v1''],
       HeaderFile = [], Year = ''2020'', PackageName = ''crds''\<rparr> = ''crds''
   \<and> PreserveUnknownFields
      \<lparr>TrivialVersions = False, PreserveUnknownFields = Some True,
       AllowDangerousTypes = None, MaxDescLen = None, CRDVersions = [''v1''],
       HeaderFile = [], Year = ''2020'', PackageName = ''crds''\<rparr> = Some True
   \<and> requestedVersions
      \<lparr>TrivialVersions = False, PreserveUnknownFields = Some True,
       AllowDangerousTypes = None, MaxDescLen = None, CRDVersions = [''v1''],
       HeaderFile = [], Year = ''2020'', PackageName = ''crds''\<rparr> = [''v1'']
   \<and> Generate
      \<lparr>TrivialVersions = False, PreserveUnknownFields = Some True,
       AllowDangerousTypes = None, MaxDescLen = None, CRDVersions = [''v1''],
       HeaderFile = [], Year = ''2020'', PackageName = ''crds''\<rparr>
      \<lparr>ReadFile = (\<lambda>name. Inr []), FindMetav1 = True,
       FindKubeKinds = [],
       NeedCRDFor = (\<lambda>groupKind maxDescLen. \<lparr>raw_Annotations = None, raw_Body = (0::nat)\<rparr>),
       AsVersion = (\<lambda>crdRaw ver. Inr (V1CRD crdRaw)), Version = ''v0.4.0'',
       GenerateScheme_error = (\<lambda>cw. None),
       GenerateCrds_error = (\<lambda>cw crds. None)\<rparr> = None"
  by (simp add: Generate_def readHeader_def requestedVersions_def)

section \<open>Properties of the import registry\<close>













lemma aliasLoop_exit:
  "(snd cond \<and> fst cond \<noteq> importPath) \<or> cond = lookup2 aliases (fst st) \<Longrightarrow>
   fmlookup aliases (aliasLoop aliases importPath cond st) = None
   \<or> fmlookup aliases (aliasLoop aliases importPath cond st) = Some importPath"
proof (induction aliases importPath cond st rule: aliasLoop.induct)
  case (1 aliases importPath cond st)
  show ?case
  proof (cases "snd cond \<and> fst cond \<noteq> importPath")
    case True
    have "fmlookup aliases
            (aliasLoop aliases importPath (lookup2 aliases (fst (loopBody st))) (loopBody st)) = None
          \<or> fmlookup aliases
            (aliasLoop aliases importPath (lookup2 aliases (fst (loopBody st))) (loopBody st))
              = Some importPath"
      by (rule "1.IH" [OF True]) simp
    with True show ?thesis by (simp add: aliasLoop.simps [of aliases importPath cond st])
  next
    case False
    with "1.prems" have cond: "cond = lookup2 aliases (fst st)" by blast
    have res: "aliasLoop aliases importPath cond st = fst st"
      by (subst aliasLoop.simps) (rule if_not_P [OF False])
    from False cond show ?thesis
      unfolding res by (auto simp: lookup2_def split: option.splits)
  qed
qed

lemma NeedImport_seen:
  "fmlookup (byPath l) (stripVendor p) = Some a \<Longrightarrow> NeedImport p l = (a, l)"
  by (simp add: NeedImport_def)

lemma NeedImport_records:
  "fmlookup (byPath (snd (NeedImport p l))) (stripVendor p) = Some (fst (NeedImport p l))"
  by (simp add: NeedImport_def Let_def split: option.splits prod.splits)

lemma NeedImport_keeps:
  "fmlookup (byPath l) q = Some a \<Longrightarrow> fmlookup (byPath (snd (NeedImport p l))) q = Some a"
  by (auto simp add: NeedImport_def Let_def split: option.splits prod.splits)

lemma needImports_keeps:
  "fmlookup (byPath l) q = Some a \<Longrightarrow> fmlookup (byPath (snd (needImports ps l))) q = Some a"
proof (induction ps arbitrary: l)
  case Nil
  then show ?case by simp
next
  case (Cons p ps)
  from Cons.IH [OF NeedImport_keeps [OF Cons.prems, of p]]
  show ?case by (simp add: case_prod_beta)
qed


lemma NeedImport_ok:
  assumes "registry_ok l" and "stripVendor p \<noteq> []"
  shows "registry_ok (snd (NeedImport p l))"
proof (cases "fmlookup (byPath l) (stripVendor p)")
  case (Some a)
  with assms(1) show ?thesis by (simp add: NeedImport_seen)
next
  case None
  obtain restPath nextWord where split: "path_Split (stripVendor p) = (restPath, nextWord)"
    by (cases "path_Split (stripVendor p)")
  define a where "a = aliasLoop (byAlias l) (stripVendor p) ([], True) ([], restPath, nextWord)"
  have res: "snd (NeedImport p l) =
      l\<lparr>byPath := fmupd (stripVendor p) a (byPath l),
        byAlias := fmupd a (stripVendor p) (byAlias l)\<rparr>"
    by (simp add: NeedImport_def Let_def None split a_def)
  have "fmlookup (byAlias l) a = None \<or> fmlookup (byAlias l) a = Some (stripVendor p)"
    unfolding a_def using assms(2) by (intro aliasLoop_exit) auto
  moreover have "fmlookup (byAlias l) a \<noteq> Some (stripVendor p)"
  proof -
    from assms(1) have "fmlookup (byPath l) (stripVendor p) = Some a
        \<longleftrightarrow> fmlookup (byAlias l) a = Some (stripVendor p)"
      by (simp add: registry_ok_def)
    with None show ?thesis by simp
  qed
  ultimately have fresh: "fmlookup (byAlias l) a = None" by blast
  have inv: "fmlookup (byPath l) q = Some b \<longleftrightarrow> fmlookup (byAlias l) b = Some q" for q b
    using assms(1) by (simp add: registry_ok_def)
  show ?thesis
    unfolding res registry_ok_def
  proof (intro allI)
    fix q b
    show "fmlookup (byPath (l\<lparr>byPath := fmupd (stripVendor p) a (byPath l),
              byAlias := fmupd a (stripVendor p) (byAlias l)\<rparr>)) q = Some b
       \<longleftrightarrow> fmlookup (byAlias (l\<lparr>byPath := fmupd (stripVendor p) a (byPath l),
              byAlias := fmupd a (stripVendor p) (byAlias l)\<rparr>)) b = Some q"
      using inv [of q b] inv [of "stripVendor p" b] inv [of q a] None fresh
      by (cases "q = stripVendor p"; cases "b = a") auto
  qed
qed


lemma needImports_ok:
  "registry_ok l \<Longrightarrow> \<forall>p \<in> set ps. stripVendor p \<noteq> [] \<Longrightarrow>
   registry_ok (snd (needImports ps l))"
proof (induction ps arbitrary: l)
  case Nil
  then show ?case by simp
next
  case (Cons p ps)
  from Cons.prems have "registry_ok (snd (NeedImport p l))"
    by (simp add: NeedImport_ok)
  moreover from Cons.prems have "\<forall>q \<in> set ps. stripVendor q \<noteq> []" by simp
  ultimately have "registry_ok (snd (needImports ps (snd (NeedImport p l))))"
    by (rule Cons.IH)
  then show ?case by (simp add: case_prod_beta)
qed

lemma needImports_records:
  "i < length ps \<Longrightarrow>
   fmlookup (byPath (snd (needImports ps l))) (stripVendor (ps ! i))
     = Some (fst (needImports ps l) ! i)"
proof (induction ps arbitrary: l i)
  case Nil
  then show ?case by simp
next
  case (Cons p ps)
  show ?case
  proof (cases i)
    case 0
    from needImports_keeps [OF NeedImport_records, of ps p l]
    show ?thesis by (simp add: 0 case_prod_beta)
  next
    case (Suc k)
    with Cons.prems have "k < length ps" by simp
    from Cons.IH [OF this, of "snd (NeedImport p l)"]
    show ?thesis by (simp add: Suc case_prod_beta)
  qed
qed

lemma imports_init_ok: "registry_ok imports_init"
  by (simp add: registry_ok_def imports_init_def)

text \<open>
  As long as no submitted path is empty after the vendor cut, two calls of a run that
  hand out the same alias were made for the same path.
\<close>

lemma needImports_unique:
  assumes "\<forall>p \<in> set ps. stripVendor p \<noteq> []"
    and "i < length ps" and "j < length ps"
    and "fst (needImports ps imports_init) ! i = fst (needImports ps imports_init) ! j"
  shows "stripVendor (ps ! i) = stripVendor (ps ! j)"
proof -
  let ?l = "snd (needImports ps imports_init)"
  let ?a = "fst (needImports ps imports_init) ! i"
  from needImports_ok [OF imports_init_ok assms(1)] have ok: "registry_ok ?l" .
  from needImports_records [OF assms(2)]
  have "fmlookup (byPath ?l) (stripVendor (ps ! i)) = Some ?a" .
  with ok have i: "fmlookup (byAlias ?l) ?a = Some (stripVendor (ps ! i))"
    by (simp add: registry_ok_def)
  from needImports_records [OF assms(3)] assms(4)
  have "fmlookup (byPath ?l) (stripVendor (ps ! j)) = Some ?a" by simp
  with ok have "fmlookup (byAlias ?l) ?a = Some (stripVendor (ps ! j))"
    by (simp add: registry_ok_def)
  with i show ?thesis by simp
qed



text \<open>
  Claim C1 fails on the code. The loop that searches for a unique alias starts from
  \<^verbatim>\<open>otherPath = ""\<close> and runs while \<^verbatim>\<open>otherPath != importPath\<close>, so for the empty
  path it is never entered and the empty alias is taken unchecked. On a fresh registry,
  the path \<^verbatim>\<open>example.com/2048\<close> gets the empty alias (its last part is all digits), and
  the empty path, submitted next, gets the empty alias too; the alias map then points
  to the empty path only.
\<close>

theorem NeedImport_empty_path_collision:
  "fst (NeedImport ''example.com/2048'' imports_init) = []
   \<and> fst (NeedImport [] (snd (NeedImport ''example.com/2048'' imports_init))) = []
   \<and> fmlookup (byPath (snd (needImports [''example.com/2048'', []] imports_init)))
        ''example.com/2048'' = Some []
   \<and> fmlookup (byPath (snd (needImports [''example.com/2048'', []] imports_init)))
        [] = Some []
   \<and> fmlookup (byAlias (snd (needImports [''example.com/2048'', []] imports_init)))
        [] = Some []"
  by code_simp

section \<open>Properties of the serializer\<close>

lemma generateBuiltinLiteralValue_scalar:
  "scalarOfKind (Kind t) s \<Longrightarrow>
   generateBuiltinLiteralValue (Scalar t s) = Inr [jen_Lit (Kind t) s]"
  by (cases s) (auto simp add: scalarOfKind_def generateBuiltinLiteralValue_def)

text \<open>
  Claim C9. For a pointer to a scalar, \<^verbatim>\<open>generateValue\<close> returns a call of the helper
  of the package \<^verbatim>\<open>github.com/zoumo/golib/pointer\<close> named after the capitalized kind,
  applied to the literal of the pointee; when the pointee's type is a named type, the call
  is converted to a pointer to that type. The statement is built from the pointee alone:
  the address of the pointer does not occur in it.
\<close>

theorem generateValue_pointer_to_scalar:
  assumes "IsLiteralType te" and "scalarOfKind (Kind te) s"
  shows "generateValue marshal (Pointer (PtrTo te) (Some (addr, Scalar te s))) omitType =
     Inr (Some
       (let p = [jen_Qual ''github.com/zoumo/golib/pointer''
                   (Capitalize (kind_String (Kind te))),
                 jen_Call [jen_Statement [jen_Lit (Kind te) s]]]
        in if IsCustomType te
           then [jen_Parens (jen_Statement [jen_Op ''*'', jen_Qual (PkgPath te) (Name te)]),
                 jen_Parens (jen_Statement p)]
           else p))"
proof -
  have "\<not> IsLiteralType (PtrTo te)" by (simp add: IsLiteralType_def)
  then have "generateValue marshal (Pointer (PtrTo te) (Some (addr, Scalar te s))) omitType =
      generatePtrValue marshal (Pointer (PtrTo te) (Some (addr, Scalar te s))) omitType"
    by (simp add: generateValue.simps Let_def)
  also from assms(1) have "\<dots> = generatePtrLiteralValue (Scalar te s)"
    by simp
  also from assms have "\<dots> = Inr (Some
       (let p = [jen_Qual ''github.com/zoumo/golib/pointer''
                   (Capitalize (kind_String (Kind te))),
                 jen_Call [jen_Statement [jen_Lit (Kind te) s]]]
        in if IsCustomType te
           then [jen_Parens (jen_Statement [jen_Op ''*'', jen_Qual (PkgPath te) (Name te)]),
                 jen_Parens (jen_Statement p)]
           else p))"
    by (simp add: generatePtrLiteralValue_def generateBuiltinLiteralValue_scalar Let_def)
  finally show ?thesis .
qed

theorem generateValue_pointer_to_scalar_witness:
  "IsLiteralType (Basic reflect_Int64 ''time'' ''Duration'')
   \<and> scalarOfKind (Kind (Basic reflect_Int64 ''time'' ''Duration'')) (S_int 5)
   \<and> generateValue (\<lambda>v. []) (Pointer (PtrTo (Basic reflect_Int64 ''time'' ''Duration''))
        (Some (4096, Scalar (Basic reflect_Int64 ''time'' ''Duration'') (S_int 5)))) False =
      Inr (Some
        [jen_Parens (jen_Statement [jen_Op ''*'', jen_Qual ''time'' ''Duration'']),
         jen_Parens (jen_Statement
           [jen_Qual ''github.com/zoumo/golib/pointer'' ''Int64'',
            jen_Call [jen_Statement [jen_Lit reflect_Int64 (S_int 5)]]])])"
proof -
  have cap: "Capitalize ''int64'' = ''Int64''" by code_simp
  from generateValue_pointer_to_scalar
    [of "Basic reflect_Int64 ''time'' ''Duration''" "S_int 5" "\<lambda>v. []" 4096 False]
  show ?thesis
    by (simp add: IsLiteralType_def IsCustomType_def scalarOfKind_def Let_def cap del: Capitalize.simps)
qed

lemma generateStructWithUnexportedField_applies:
  assumes "fallbackApplies t"
  shows "generateStructWithUnexportedField marshal (StructV t xs) ptrResult =
     Some ([jen_Func, jen_Params []]
           @ (if ptrResult then [jen_Op ''*''] else [])
           @ [jen_Statement [jen_Qual (PkgPath t) (Name t)],
              jen_Block
                [jen_Statement [jen_Id ''jsonStr'', jen_Op '':='',
                                jen_Lit reflect_String (S_string (marshal (StructV t xs)))],
                 jen_Statement [jen_Var, jen_Id ''obj'',
                                jen_Statement [jen_Qual (PkgPath t) (Name t)]],
                 jen_Statement
                   [jen_Qual ''encoding/json'' ''Unmarshal'',
                    jen_Call
                      [jen_Statement [jen_Index [], jen_Byte,
                                      jen_Parens (jen_Statement [jen_Id ''jsonStr''])],
                       jen_Statement [jen_Op ''&'', jen_Id ''obj'']]],
                 jen_Statement
                   [jen_Return [jen_Statement
                      (if ptrResult then [jen_Op ''&'', jen_Id ''obj''] else [jen_Id ''obj''])]]],
              jen_Call []])"
  using assms
  by (simp add: generateStructWithUnexportedField_def fallbackApplies_def Let_def)

text \<open>
  Claim C3. For a struct value whose type has an unexported field and implements both
  interfaces (itself or through a pointer), \<^verbatim>\<open>generateStructValue\<close> returns a function
  literal that is called on the spot: it binds the text that \<^verbatim>\<open>json.Marshal\<close> gave at
  generation time, declares \<^verbatim>\<open>obj\<close> of the struct type, unmarshals the text into it
  and returns \<^verbatim>\<open>obj\<close>, or its address when a pointer is wanted. The fields are not
  visited. A struct value reaches this with \<^verbatim>\<open>ptrResult\<close> false, a pointer to a
  struct with \<^verbatim>\<open>ptrResult\<close> true.
\<close>

theorem generateStructValue_fallback:
  assumes "fallbackApplies t"
  shows "generateStructValue marshal (StructV t xs) ptrResult omitType =
     Inr (Some
       ([jen_Func, jen_Params []]
        @ (if ptrResult then [jen_Op ''*''] else [])
        @ [jen_Statement [jen_Qual (PkgPath t) (Name t)],
           jen_Block
             [jen_Statement [jen_Id ''jsonStr'', jen_Op '':='',
                             jen_Lit reflect_String (S_string (marshal (StructV t xs)))],
              jen_Statement [jen_Var, jen_Id ''obj'',
                             jen_Statement [jen_Qual (PkgPath t) (Name t)]],
              jen_Statement
                [jen_Qual ''encoding/json'' ''Unmarshal'',
                 jen_Call
                   [jen_Statement [jen_Index [], jen_Byte,
                                   jen_Parens (jen_Statement [jen_Id ''jsonStr''])],
                    jen_Statement [jen_Op ''&'', jen_Id ''obj'']]],
              jen_Statement
                [jen_Return [jen_Statement
                   (if ptrResult then [jen_Op ''&'', jen_Id ''obj''] else [jen_Id ''obj''])]]],
           jen_Call []]))
   \<and> generateValue marshal (StructV t xs) omitType =
       generateStructValue marshal (StructV t xs) False omitType
   \<and> generateValue marshal (Pointer (PtrTo t) (Some (addr, StructV t xs))) omitType =
       generateStructValue marshal (StructV t xs) True omitType"
proof -
  from assms have kind: "Kind t = reflect_Struct" and unexported: "HasUnexportedField t"
    by (simp_all add: fallbackApplies_def)
  from kind have notlit: "\<not> IsLiteralType t" "\<not> IsLiteralType (PtrTo t)"
    by (simp_all add: IsLiteralType_def)
  have first: "generateStructValue marshal (StructV t xs) ptrResult omitType =
      Inr (generateStructWithUnexportedField marshal (StructV t xs) ptrResult)"
    using kind unexported generateStructWithUnexportedField_applies [OF assms, of marshal xs ptrResult]
    by (simp add: generateStructValue.simps Let_def del: append.simps)
  have second: "generateValue marshal (StructV t xs) omitType =
       generateStructValue marshal (StructV t xs) False omitType"
    using kind notlit by (simp add: generateValue.simps Let_def)
  have "generateValue marshal (Pointer (PtrTo t) (Some (addr, StructV t xs))) omitType =
       generatePtrValue marshal (Pointer (PtrTo t) (Some (addr, StructV t xs))) omitType"
    using notlit by (simp add: generateValue.simps Let_def)
  also have "\<dots> = generateStructValue marshal (StructV t xs) True omitType"
    using kind notlit by simp
  finally have third:
    "generateValue marshal (Pointer (PtrTo t) (Some (addr, StructV t xs))) omitType =
       generateStructValue marshal (StructV t xs) True omitType" .
  from first second third show ?thesis
    by (simp only: generateStructWithUnexportedField_applies [OF assms] simp_thms)
qed

theorem generateStructValue_fallback_witness:
  "fallbackApplies
     (StructType ''k8s.io/apimachinery/pkg/api/resource'' ''Quantity''
        [StructField ''s'' ''k8s.io/apimachinery/pkg/api/resource'' (Basic reflect_String [] []),
         StructField ''Format'' []
           (Basic reflect_String ''k8s.io/apimachinery/pkg/api/resource'' ''Format'')]
        [json_Marshaler] [json_Marshaler, json_Unmarshaler])
   \<and> generateValue (\<lambda>v. ''1Gi'')
       (Pointer (PtrTo
          (StructType ''k8s.io/apimachinery/pkg/api/resource'' ''Quantity''
             [StructField ''s'' ''k8s.io/apimachinery/pkg/api/resource''
                (Basic reflect_String [] []),
              StructField ''Format'' []
                (Basic reflect_String ''k8s.io/apimachinery/pkg/api/resource'' ''Format'')]
             [json_Marshaler] [json_Marshaler, json_Unmarshaler]))
          (Some (4096,
             StructV
               (StructType ''k8s.io/apimachinery/pkg/api/resource'' ''Quantity''
                  [StructField ''s'' ''k8s.io/apimachinery/pkg/api/resource''
                     (Basic reflect_String [] []),
                   StructField ''Format'' []
                     (Basic reflect_String ''k8s.io/apimachinery/pkg/api/resource''
                        ''Format'')]
                  [json_Marshaler] [json_Marshaler, json_Unmarshaler])
               [Scalar (Basic reflect_String [] []) (S_string ''1Gi''),
                Scalar (Basic reflect_String ''k8s.io/apimachinery/pkg/api/resource''
                          ''Format'') (S_string ''BinarySI'')])))
       False =
     Inr (Some
       [jen_Func, jen_Params [], jen_Op ''*'',
        jen_Statement [jen_Qual ''k8s.io/apimachinery/pkg/api/resource'' ''Quantity''],
        jen_Block
          [jen_Statement [jen_Id ''jsonStr'', jen_Op '':='',
                          jen_Lit reflect_String (S_string ''1Gi'')],
           jen_Statement [jen_Var, jen_Id ''obj'',
              jen_Statement [jen_Qual ''k8s.io/apimachinery/pkg/api/resource'' ''Quantity'']],
           jen_Statement
             [jen_Qual ''encoding/json'' ''Unmarshal'',
              jen_Call
                [jen_Statement [jen_Index [], jen_Byte,
                                jen_Parens (jen_Statement [jen_Id ''jsonStr''])],
                 jen_Statement [jen_Op ''&'', jen_Id ''obj'']]],
           jen_Statement
             [jen_Return [jen_Statement [jen_Op ''&'', jen_Id ''obj'']]]],
        jen_Call []])"
  using generateStructValue_fallback
    [of "StructType ''k8s.io/apimachinery/pkg/api/resource'' ''Quantity''
        [StructField ''s'' ''k8s.io/apimachinery/pkg/api/resource'' (Basic reflect_String [] []),
         StructField ''Format'' []
           (Basic reflect_String ''k8s.io/apimachinery/pkg/api/resource'' ''Format'')]
        [json_Marshaler] [json_Marshaler, json_Unmarshaler]"
        "\<lambda>v. ''1Gi''"
        "[Scalar (Basic reflect_String [] []) (S_string ''1Gi''),
          Scalar (Basic reflect_String ''k8s.io/apimachinery/pkg/api/resource''
                    ''Format'') (S_string ''BinarySI'')]"
        True False 4096]
  by (simp add: fallbackApplies_def IsUnexportedField_def)

text \<open>
  The fallback also applies to a struct type all of whose own fields are exported when
  the type of one of them is a struct type with an unexported field: \<^verbatim>\<open>Outer\<close> below
  has the exported field \<^verbatim>\<open>Inner\<close>, whose type has the unexported field \<^verbatim>\<open>x\<close>.
\<close>

lemma fallbackApplies_nested_field:
  "fallbackApplies
     (StructType ''example.com/api'' ''Outer''
        [StructField ''Inner'' []
           (StructType ''example.com/api'' ''Inner''
              [StructField ''x'' ''example.com/api'' (Basic reflect_Int [] [])] [] [])]
        [json_Marshaler] [json_Marshaler, json_Unmarshaler])"
  by (simp add: fallbackApplies_def IsUnexportedField_def)

lemma dictSet_append: "k \<noteq> jen_nil \<Longrightarrow> dictSet d k x = d @ [(k, x)]"
  by (induction d) auto

lemma fieldsLoop_entries:
  "length flds = length xs \<Longrightarrow> fieldsLoop marshal flds xs d0 = Inr d \<Longrightarrow>
   d = d0 @ concat (map2 (fieldEntry marshal) flds xs)"
proof (induction flds xs arbitrary: d0 rule: list_induct2)
  case Nil
  then show ?case by simp
next
  case (Cons field flds x xs)
  show ?case
  proof (cases "\<not> IsUnexportedField field \<and> \<not> IsAnonymousStruct (field_Type field)
                \<and> \<not> IsZero x")
    case False
    with Cons.prems have "fieldsLoop marshal flds xs d0 = Inr d"
      by (auto split: if_splits)
    from Cons.IH [OF this] False show ?thesis by (simp add: fieldEntry_def)
  next
    case True
    with Cons.prems obtain r where r: "generateValue marshal x False = Inr r"
      and rest: "fieldsLoop marshal flds xs
                   (dictSet d0 (jen_Statement [jen_Id (field_Name field)]) (Code r)) = Inr d"
      by (auto split: sum.splits)
    from Cons.IH [OF rest] True r show ?thesis
      by (simp add: fieldEntry_def dictSet_append)
  qed
qed

lemma fieldsLoop_returns:
  "length flds = length xs \<Longrightarrow> fieldsLoop marshal flds xs d0 = Inr d \<Longrightarrow> i < length flds \<Longrightarrow>
   \<not> IsUnexportedField (flds ! i) \<Longrightarrow> \<not> IsAnonymousStruct (field_Type (flds ! i)) \<Longrightarrow>
   \<not> IsZero (xs ! i) \<Longrightarrow>
   \<exists>r. generateValue marshal (xs ! i) False = Inr r"
proof (induction flds xs arbitrary: d0 i rule: list_induct2)
  case Nil
  then show ?case by simp
next
  case (Cons field flds x xs)
  show ?case
  proof (cases i)
    case 0
    with Cons.prems show ?thesis by (auto split: sum.splits)
  next
    case (Suc j)
    from Cons.prems(1) obtain d1 where "fieldsLoop marshal flds xs d1 = Inr d"
      by (auto split: sum.splits if_splits)
    from Cons.IH [OF this, of j] Cons.prems Suc show ?thesis by simp
  qed
qed

lemma fieldEntry_other_key:
  "length flds = length xs \<Longrightarrow> field_Name field \<notin> field_Name ` set flds \<Longrightarrow>
   filter (\<lambda>kv. fst kv = jen_Statement [jen_Id (field_Name field)])
     (concat (map2 (fieldEntry marshal) flds xs)) = []"
  by (induction flds xs rule: list_induct2) (auto simp add: fieldEntry_def)

lemma fieldEntry_filter:
  "length flds = length xs \<Longrightarrow> distinct (map field_Name flds) \<Longrightarrow> i < length flds \<Longrightarrow>
   filter (\<lambda>kv. fst kv = jen_Statement [jen_Id (field_Name (flds ! i))])
     (concat (map2 (fieldEntry marshal) flds xs)) = fieldEntry marshal (flds ! i) (xs ! i)"
proof (induction flds xs arbitrary: i rule: list_induct2)
  case Nil
  then show ?case by simp
next
  case (Cons field flds x xs)
  show ?case
  proof (cases i)
    case 0
    from Cons.prems have "field_Name field \<notin> field_Name ` set flds" by simp
    from fieldEntry_other_key [OF Cons.hyps this, of marshal] 0 show ?thesis
      by (simp add: fieldEntry_def)
  next
    case (Suc j)
    with Cons.prems have j: "j < length flds" and "distinct (map field_Name flds)" by simp_all
    from Cons.IH [OF this(2) this(1)]
    have rest: "filter (\<lambda>kv. fst kv = jen_Statement [jen_Id (field_Name (flds ! j))])
       (concat (map2 (fieldEntry marshal) flds xs)) = fieldEntry marshal (flds ! j) (xs ! j)" .
    from j Cons.prems have "field_Name (flds ! j) \<noteq> field_Name field"
      by (metis distinct.simps(2) image_eqI list.simps(9) nth_mem set_map)
    with rest Suc show ?thesis by (simp add: fieldEntry_def)
  qed
qed

lemma generateStructValue_normal:
  assumes "\<not> fallbackApplies (StructType pkg name flds ms pms)"
    and "length xs = length flds"
    and "generateStructValue marshal (StructV (StructType pkg name flds ms pms) xs)
           ptrResult omitType = Inr (Some stmt)"
  shows "stmt =
     (if omitType then []
      else if ptrResult
      then [jen_Op ''&'', jen_Statement
              (if name = []
               then [jen_Struct (map (\<lambda>field. jen_Statement
                       [jen_Id (field_Name field), Code (generateType (field_Type field))]) flds)]
               else [jen_Qual pkg name])]
      else (if name = []
            then [jen_Struct (map (\<lambda>field. jen_Statement
                    [jen_Id (field_Name field), Code (generateType (field_Type field))]) flds)]
            else [jen_Qual pkg name]))
     @ [jen_Values [jen_Dict (concat (map2 (fieldEntry marshal) flds xs))]]
   \<and> fieldsLoop marshal flds xs [] = Inr (concat (map2 (fieldEntry marshal) flds xs))"
proof -
  let ?t = "StructType pkg name flds ms pms"
  let ?ts = "if name = []
     then [jen_Struct (map (\<lambda>field. jen_Statement
             [jen_Id (field_Name field), Code (generateType (field_Type field))]) flds)]
     else [jen_Qual pkg name]"
  let ?prefix = "if omitType then []
     else if ptrResult then [jen_Op ''&'', jen_Statement ?ts] else ?ts"
  from assms(1) have nofallback:
    "HasUnexportedField ?t \<Longrightarrow>
     generateStructWithUnexportedField marshal (StructV ?t xs) ptrResult = None"
    by (auto simp add: fallbackApplies_def generateStructWithUnexportedField_def Let_def)
  have eq: "generateStructValue marshal (StructV ?t xs) ptrResult omitType =
     Values (Some ?prefix) (asDict (fieldsLoop marshal flds xs []))"
    by (cases "HasUnexportedField ?t")
       (simp_all add: generateStructValue.simps Let_def nofallback IsAnonymousStruct_def)
  with assms(3) obtain d where d: "fieldsLoop marshal flds xs [] = Inr d"
    and stmt: "stmt = ?prefix @ [jen_Values [jen_Dict d]]"
    by (cases "fieldsLoop marshal flds xs []") (simp_all add: Values_def asDict_def)
  from fieldsLoop_entries [OF assms(2) [symmetric] d]
  have "d = concat (map2 (fieldEntry marshal) flds xs)" by simp
  with d stmt show ?thesis by simp
qed


lemma key_absent: "filter (\<lambda>kv. fst kv = k) d = [] \<Longrightarrow> k \<notin> fst ` set d"
  by (auto simp add: filter_empty_conv)

lemma generateValue_skipped:
  "skippedKind (Kind (Type_of v)) \<Longrightarrow> generateValue marshal v omitType = Inr None"
  by (auto simp add: skippedKind_def generateValue.simps Let_def IsLiteralType_def)

lemma generateStructValue_not_null:
  "generateStructValue marshal v ptrResult omitType = Inr (Some s) \<Longrightarrow> \<not> list_all isNull s"
  by (auto simp add: generateStructValue.simps Let_def Values_def asDict_def
        generateStructWithUnexportedField_def
      split: if_splits option.splits sum.splits)

lemma generatePtrLiteralValue_not_null:
  "generatePtrLiteralValue v = Inr (Some s) \<Longrightarrow> \<not> list_all isNull s"
  by (auto simp add: generatePtrLiteralValue_def Let_def split: if_splits sum.splits)

lemma generateBuiltinLiteralValue_not_null:
  "IsLiteralType (Type_of v) \<Longrightarrow> generateBuiltinLiteralValue v = Inr s \<Longrightarrow>
   \<not> list_all isNull s"
  by (cases v; cases "Kind (Type_of v)")
     (auto simp add: generateBuiltinLiteralValue_def IsLiteralType_def
       elim: litBool.elims litInt.elims litUint.elims litFloat.elims litString.elims)

lemma generateLiteralValue_not_null:
  "generateLiteralValue v = Inr (Some s) \<Longrightarrow> \<not> list_all isNull s"
  by (auto simp add: generateLiteralValue_def Let_def
      dest: generateBuiltinLiteralValue_not_null split: if_splits sum.splits)

lemma generatePtrValue_not_null:
  "generatePtrValue marshal v omitType = Inr (Some s) \<Longrightarrow> \<not> list_all isNull s"
  by (cases "(marshal, v, omitType)" rule: generatePtrValue.cases)
     (auto simp add: Let_def dest: generateStructValue_not_null generatePtrLiteralValue_not_null
       split: if_splits sum.splits)

lemma generateValue_not_null:
  "generateValue marshal v omitType = Inr (Some s) \<Longrightarrow> \<not> isNull (jen_Statement s)"
  by (auto simp add: generateValue.simps Let_def Values_def
      dest: generateStructValue_not_null generatePtrValue_not_null generateLiteralValue_not_null
      split: if_splits kind.splits sum.splits option.splits)



lemma generateLiteralValue_Some:
  "IsLiteralType (Type_of v) \<Longrightarrow> generateLiteralValue v = Inr r \<Longrightarrow> \<exists>s. r = Some s"
  by (auto simp add: generateLiteralValue_def Let_def split: if_splits sum.splits)

lemma generatePtrLiteralValue_Some:
  "IsLiteralType (Type_of v) \<Longrightarrow> generatePtrLiteralValue v = Inr r \<Longrightarrow> \<exists>s. r = Some s"
  by (auto simp add: generatePtrLiteralValue_def Let_def split: if_splits sum.splits)

lemma generateStructValue_Some:
  assumes "Kind (Type_of v) = reflect_Struct"
    and "generateStructValue marshal v ptrResult omitType = Inr r"
  shows "\<exists>s. r = Some s"
proof (cases "if HasUnexportedField (Type_of v)
              then generateStructWithUnexportedField marshal v ptrResult else None")
  case None
  with assms show ?thesis
    by (simp add: generateStructValue.simps Let_def Values_def split: sum.splits) blast
next
  case (Some j)
  with assms show ?thesis
    by (auto simp add: generateStructValue.simps Let_def)
qed

lemma generatePtrValue_Some:
  assumes "Kind (Type_of v) = reflect_Ptr" and "pointeeTyped v"
    and "generatePtrValue marshal v omitType = Inr r"
  shows "\<exists>s. r = Some s"
proof (cases v)
  case (Pointer t p)
  show ?thesis
  proof (cases p)
    case None
    with Pointer assms show ?thesis by simp
  next
    case (Some ae)
    obtain addr elem where ae: "ae = (addr, elem)" by (cases ae)
    from assms(2) Pointer Some ae have typed: "Type_of elem = Elem_type t"
      by (simp add: pointeeTyped_def)
    from assms(1) Pointer have kind: "Kind t = reflect_Ptr" by simp
    show ?thesis
    proof (cases "IsLiteralType (Elem_type t)")
      case True
      with assms(3) Pointer Some ae kind have "generatePtrLiteralValue elem = Inr r"
        by simp
      moreover from True typed have "IsLiteralType (Type_of elem)" by simp
      ultimately show ?thesis by (auto dest: generatePtrLiteralValue_Some)
    next
      case False
      show ?thesis
      proof (cases "Kind (Elem_type t) = reflect_Struct")
        case True
        with False assms(3) Pointer Some ae kind
        have "generateStructValue marshal elem True omitType = Inr r"
          by simp
        moreover from True typed have "Kind (Type_of elem) = reflect_Struct" by simp
        ultimately show ?thesis by (auto dest: generateStructValue_Some)
      next
        case notStruct: False
        with False assms(3) Pointer Some ae kind show ?thesis
          by (auto simp add: Let_def split: if_splits sum.splits)
      qed
    qed
  qed
qed (use assms in simp_all)

lemma generateValue_None_iff:
  assumes "pointeeTyped v" and "generateValue marshal v omitType = Inr r"
  shows "r = None \<longleftrightarrow> skippedKind (Kind (Type_of v))"
proof (cases "IsLiteralType (Type_of v)")
  case True
  with assms(2) have "generateLiteralValue v = Inr r"
    by (simp add: generateValue.simps)
  from generateLiteralValue_Some [OF True this] True show ?thesis
    by (auto simp add: skippedKind_def IsLiteralType_def)
next
  case False
  with assms show ?thesis
    by (cases "Kind (Type_of v)")
       (auto simp add: generateValue.simps Let_def skippedKind_def IsLiteralType_def Values_def
         dest: generatePtrValue_Some generateStructValue_Some
         split: sum.splits option.splits if_splits)
qed

lemma printedPairs_filter:
  "filter P (printedPairs d) = filter printable (filter P d)"
  by (induction d) (auto simp add: printedPairs_def)

text \<open>
  Claim C2, as the code has it. On the normal path (the fallback does not apply), the
  statement that \<^verbatim>\<open>generateStructValue\<close> returns for a struct value ends in a
  dictionary in which no field that holds its zero value has a pair, and every exported,
  non-zero field that is not of anonymous struct type has exactly one pair: its name with
  the result of \<^verbatim>\<open>generateValue\<close> on its value. That result is the nil statement
  exactly when the kind of the field is one the serializer skips (channel, function,
  interface, complex number, unsafe pointer); the pair is then not printed, so the field
  is absent from the emitted literal. A field of any other kind is printed exactly once,
  with its serialized value.
\<close>

theorem generateStructValue_fields_printed:
  assumes "\<not> fallbackApplies (StructType pkg name flds ms pms)"
    and "length xs = length flds"
    and "distinct (map field_Name flds)"
    and "list_all pointeeTyped xs"
    and "generateStructValue marshal (StructV (StructType pkg name flds ms pms) xs)
           ptrResult omitType = Inr (Some stmt)"
  shows "\<exists>ts d. stmt = ts @ [jen_Values [jen_Dict d]]
     \<and> (\<forall>i<length flds.
          (IsZero (xs ! i) \<longrightarrow>
             jen_Statement [jen_Id (field_Name (flds ! i))] \<notin> fst ` set d)
        \<and> (\<not> IsUnexportedField (flds ! i) \<and> \<not> IsZero (xs ! i)
           \<and> \<not> IsAnonymousStruct (field_Type (flds ! i)) \<longrightarrow>
             (\<exists>r. generateValue marshal (xs ! i) False = Inr r
                \<and> (r = None \<longleftrightarrow> skippedKind (Kind (Type_of (xs ! i))))
                \<and> filter (\<lambda>kv. fst kv = jen_Statement [jen_Id (field_Name (flds ! i))]) d
                    = [(jen_Statement [jen_Id (field_Name (flds ! i))], Code r)]
                \<and> filter (\<lambda>kv. fst kv = jen_Statement [jen_Id (field_Name (flds ! i))])
                      (printedPairs d)
                    = (if skippedKind (Kind (Type_of (xs ! i))) then []
                       else [(jen_Statement [jen_Id (field_Name (flds ! i))], Code r)]))))"
proof -
  let ?d = "concat (map2 (fieldEntry marshal) flds xs)"
  from generateStructValue_normal [OF assms(1,2,5)]
  obtain ts where stmt: "stmt = ts @ [jen_Values [jen_Dict ?d]]"
    and loop: "fieldsLoop marshal flds xs [] = Inr ?d"
    by blast
  have "(IsZero (xs ! i) \<longrightarrow>
             jen_Statement [jen_Id (field_Name (flds ! i))] \<notin> fst ` set ?d)
        \<and> (\<not> IsUnexportedField (flds ! i) \<and> \<not> IsZero (xs ! i)
           \<and> \<not> IsAnonymousStruct (field_Type (flds ! i)) \<longrightarrow>
             (\<exists>r. generateValue marshal (xs ! i) False = Inr r
                \<and> (r = None \<longleftrightarrow> skippedKind (Kind (Type_of (xs ! i))))
                \<and> filter (\<lambda>kv. fst kv = jen_Statement [jen_Id (field_Name (flds ! i))]) ?d
                    = [(jen_Statement [jen_Id (field_Name (flds ! i))], Code r)]
                \<and> filter (\<lambda>kv. fst kv = jen_Statement [jen_Id (field_Name (flds ! i))])
                      (printedPairs ?d)
                    = (if skippedKind (Kind (Type_of (xs ! i))) then []
                       else [(jen_Statement [jen_Id (field_Name (flds ! i))], Code r)])))"
    if i: "i < length flds" for i
  proof -
    let ?key = "jen_Statement [jen_Id (field_Name (flds ! i))]"
    from assms(2,4) i have typed: "pointeeTyped (xs ! i)"
      by (simp add: list_all_length)
    from fieldEntry_filter [OF assms(2) [symmetric] assms(3) i, of marshal]
    have flt: "filter (\<lambda>kv. fst kv = ?key) ?d = fieldEntry marshal (flds ! i) (xs ! i)" .
    have zero: "?key \<notin> fst ` set ?d" if "IsZero (xs ! i)"
    proof -
      from that flt have "filter (\<lambda>kv. fst kv = ?key) ?d = []"
        by (simp add: fieldEntry_def)
      then show ?thesis by (rule key_absent)
    qed
    have once: "\<exists>r. generateValue marshal (xs ! i) False = Inr r
                \<and> (r = None \<longleftrightarrow> skippedKind (Kind (Type_of (xs ! i))))
                \<and> filter (\<lambda>kv. fst kv = ?key) ?d = [(?key, Code r)]
                \<and> filter (\<lambda>kv. fst kv = ?key) (printedPairs ?d)
                    = (if skippedKind (Kind (Type_of (xs ! i))) then [] else [(?key, Code r)])"
      if "\<not> IsUnexportedField (flds ! i)" "\<not> IsZero (xs ! i)"
         "\<not> IsAnonymousStruct (field_Type (flds ! i))"
    proof -
      from fieldsLoop_returns [OF assms(2) [symmetric] loop i that(1) that(3) that(2)]
      obtain r where r: "generateValue marshal (xs ! i) False = Inr r" ..
      with flt that have one: "filter (\<lambda>kv. fst kv = ?key) ?d = [(?key, Code r)]"
        by (simp add: fieldEntry_def)
      from generateValue_None_iff [OF typed r]
      have skipped: "skippedKind (Kind (Type_of (xs ! i))) \<longleftrightarrow> r = None" by simp
      have "printable (?key, Code r) \<longleftrightarrow> r \<noteq> None"
      proof (cases r)
        case None
        then show ?thesis by (simp add: printable_def)
      next
        case (Some s)
        with generateValue_not_null [of marshal "xs ! i" False s] r show ?thesis
          by (simp add: printable_def)
      qed
      then have "filter (\<lambda>kv. fst kv = ?key) (printedPairs ?d)
                    = (if skippedKind (Kind (Type_of (xs ! i))) then [] else [(?key, Code r)])"
        by (simp only: printedPairs_filter one skipped) simp
      with r one skipped show ?thesis by blast
    qed
    from zero once show ?thesis by blast
  qed
  with stmt show ?thesis by blast
qed

text \<open>
  Claim C6, as the code has it. On the normal path a field whose type is an anonymous
  struct has no pair in the dictionary of the containing struct, whatever its value: the
  loop skips it. The inline \<^verbatim>\<open>struct { ... }\<close> type is what the literal starts with
  when the value being serialized is itself of an anonymous struct type (its name is
  empty) and the type is not omitted.
\<close>

theorem generateStructValue_anonymous_field:
  assumes "\<not> fallbackApplies (StructType pkg name flds ms pms)"
    and "length xs = length flds"
    and "distinct (map field_Name flds)"
    and "generateStructValue marshal (StructV (StructType pkg name flds ms pms) xs)
           ptrResult omitType = Inr (Some stmt)"
  shows "\<exists>d. stmt =
       (if omitType then []
        else if ptrResult
        then [jen_Op ''&'', jen_Statement
                (if name = []
                 then [jen_Struct (map (\<lambda>field. jen_Statement
                         [jen_Id (field_Name field), Code (generateType (field_Type field))])
                         flds)]
                 else [jen_Qual pkg name])]
        else (if name = []
              then [jen_Struct (map (\<lambda>field. jen_Statement
                      [jen_Id (field_Name field), Code (generateType (field_Type field))])
                      flds)]
              else [jen_Qual pkg name]))
       @ [jen_Values [jen_Dict d]]
     \<and> (\<forall>i<length flds. IsAnonymousStruct (field_Type (flds ! i)) \<longrightarrow>
           jen_Statement [jen_Id (field_Name (flds ! i))] \<notin> fst ` set d)"
proof -
  let ?d = "concat (map2 (fieldEntry marshal) flds xs)"
  have "jen_Statement [jen_Id (field_Name (flds ! i))] \<notin> fst ` set ?d"
    if i: "i < length flds" and anon: "IsAnonymousStruct (field_Type (flds ! i))" for i
  proof -
    from fieldEntry_filter [OF assms(2) [symmetric] assms(3) i, of marshal] anon
    have "filter (\<lambda>kv. fst kv = jen_Statement [jen_Id (field_Name (flds ! i))]) ?d = []"
      by (simp add: fieldEntry_def)
    then show ?thesis by (rule key_absent)
  qed
  with generateStructValue_normal [OF assms(1,2,4)] show ?thesis by blast
qed


theorem generateStructValue_fields_printed_witness:
  "\<not> fallbackApplies (StructType ''example.com/api'' ''T''
          [StructField ''A'' [] (Basic reflect_Int [] []),
           StructField ''B'' [] (Basic reflect_String [] []),
           StructField ''G'' [] FuncType] [] [])
   \<and> list_all pointeeTyped
         [Scalar (Basic reflect_Int [] []) (S_int 0),
          Scalar (Basic reflect_String [] []) (S_string ''hi''),
          Opaque FuncType False]
   \<and> generateStructValue (\<lambda>v. [])
       (StructV (StructType ''example.com/api'' ''T''
          [StructField ''A'' [] (Basic reflect_Int [] []),
           StructField ''B'' [] (Basic reflect_String [] []),
           StructField ''G'' [] FuncType] [] [])
         [Scalar (Basic reflect_Int [] []) (S_int 0),
          Scalar (Basic reflect_String [] []) (S_string ''hi''),
          Opaque FuncType False]) False False =
     Inr (Some
       [jen_Qual ''example.com/api'' ''T'',
        jen_Values [jen_Dict
          [(jen_Statement [jen_Id ''B''],
            jen_Statement [jen_Lit reflect_String (S_string ''hi'')]),
           (jen_Statement [jen_Id ''G''], jen_nil)]]])
   \<and> (\<exists>ts d.
       [jen_Qual ''example.com/api'' ''T'',
        jen_Values [jen_Dict
          [(jen_Statement [jen_Id ''B''],
            jen_Statement [jen_Lit reflect_String (S_string ''hi'')]),
           (jen_Statement [jen_Id ''G''], jen_nil)]]]
         = ts @ [jen_Values [jen_Dict d]]
       \<and> jen_Statement [jen_Id ''A''] \<notin> fst ` set d
       \<and> filter (\<lambda>kv. fst kv = jen_Statement [jen_Id ''B'']) (printedPairs d) =
           [(jen_Statement [jen_Id ''B''],
             jen_Statement [jen_Lit reflect_String (S_string ''hi'')])]
       \<and> filter (\<lambda>kv. fst kv = jen_Statement [jen_Id ''G'']) d =
           [(jen_Statement [jen_Id ''G''], jen_nil)]
       \<and> filter (\<lambda>kv. fst kv = jen_Statement [jen_Id ''G'']) (printedPairs d) = [])"
proof -
  have nf: "\<not> fallbackApplies (StructType ''example.com/api'' ''T''
          [StructField ''A'' [] (Basic reflect_Int [] []),
           StructField ''B'' [] (Basic reflect_String [] []),
           StructField ''G'' [] FuncType] [] [])"
    by (simp add: fallbackApplies_def IsUnexportedField_def)
  have typed: "list_all pointeeTyped
         [Scalar (Basic reflect_Int [] []) (S_int 0),
          Scalar (Basic reflect_String [] []) (S_string ''hi''),
          Opaque FuncType False]"
    by (simp add: pointeeTyped_def)
  have ev: "generateStructValue (\<lambda>v. [])
       (StructV (StructType ''example.com/api'' ''T''
          [StructField ''A'' [] (Basic reflect_Int [] []),
           StructField ''B'' [] (Basic reflect_String [] []),
           StructField ''G'' [] FuncType] [] [])
         [Scalar (Basic reflect_Int [] []) (S_int 0),
          Scalar (Basic reflect_String [] []) (S_string ''hi''),
          Opaque FuncType False]) False False =
     Inr (Some
       [jen_Qual ''example.com/api'' ''T'',
        jen_Values [jen_Dict
          [(jen_Statement [jen_Id ''B''],
            jen_Statement [jen_Lit reflect_String (S_string ''hi'')]),
           (jen_Statement [jen_Id ''G''], jen_nil)]]])"
    by code_simp
  have gv: "generateValue (\<lambda>v. []) (Scalar (Basic reflect_String [] []) (S_string ''hi'')) False
      = Inr (Some [jen_Lit reflect_String (S_string ''hi'')])"
    "generateValue (\<lambda>v. []) (Opaque FuncType False) False = Inr None"
    by code_simp+
  from generateStructValue_fields_printed [OF nf _ _ typed ev]
  obtain ts d where stmt:
      "[jen_Qual ''example.com/api'' ''T'',
        jen_Values [jen_Dict
          [(jen_Statement [jen_Id ''B''],
            jen_Statement [jen_Lit reflect_String (S_string ''hi'')]),
           (jen_Statement [jen_Id ''G''], jen_nil)]]]
         = ts @ [jen_Values [jen_Dict d]]"
    and "jen_Statement [jen_Id ''A''] \<notin> fst ` set d"
    and "filter (\<lambda>kv. fst kv = jen_Statement [jen_Id ''B'']) (printedPairs d) =
           [(jen_Statement [jen_Id ''B''],
             jen_Statement [jen_Lit reflect_String (S_string ''hi'')])]"
    and "filter (\<lambda>kv. fst kv = jen_Statement [jen_Id ''G'']) d =
           [(jen_Statement [jen_Id ''G''], jen_nil)]"
    and "filter (\<lambda>kv. fst kv = jen_Statement [jen_Id ''G'']) (printedPairs d) = []"
    by (auto simp add: All_less_Suc2 gv IsUnexportedField_def IsAnonymousStruct_def
          skippedKind_def simp del: append.simps)
  with nf typed ev show ?thesis by blast
qed

text \<open>
  The claim as the spec states it fails: the struct \<^verbatim>\<open>T\<close> has one exported field
  \<^verbatim>\<open>G\<close> of a function type holding a function (not the zero value, not of anonymous
  struct type). The serializer returns nil for the field, the dictionary pairs \<^verbatim>\<open>G\<close>
  with the nil statement, and jen prints no pair: the literal emitted is \<^verbatim>\<open>T{}\<close>.
\<close>

theorem generateValue_func_field_counterexample:
  "\<not> IsUnexportedField (StructField ''G'' [] FuncType)
   \<and> \<not> IsAnonymousStruct FuncType
   \<and> \<not> IsZero (Opaque FuncType False)
   \<and> generateValue (\<lambda>v. [])
       (StructV (StructType ''example.com/api'' ''T''
          [StructField ''G'' [] FuncType] [] [])
         [Opaque FuncType False]) False =
     Inr (Some [jen_Qual ''example.com/api'' ''T'',
                jen_Values [jen_Dict [(jen_Statement [jen_Id ''G''], jen_nil)]]])
   \<and> printedPairs [(jen_Statement [jen_Id ''G''], jen_nil)] = []"
  by code_simp

theorem generateStructValue_anonymous_field_witness:
  "\<not> fallbackApplies (StructType ''example.com/api'' ''T''
          [StructField ''A'' [] (StructType [] [] [StructField ''X'' [] (Basic reflect_Int [] [])] [] []),
           StructField ''B'' [] (Basic reflect_String [] [])] [] [])
   \<and> IsAnonymousStruct (StructType [] [] [StructField ''X'' [] (Basic reflect_Int [] [])] [] [])
   \<and> generateStructValue (\<lambda>v. [])
       (StructV (StructType ''example.com/api'' ''T''
          [StructField ''A'' [] (StructType [] [] [StructField ''X'' [] (Basic reflect_Int [] [])] [] []),
           StructField ''B'' [] (Basic reflect_String [] [])] [] [])
         [StructV (StructType [] [] [StructField ''X'' [] (Basic reflect_Int [] [])] [] [])
            [Scalar (Basic reflect_Int [] []) (S_int 1)],
          Scalar (Basic reflect_String [] []) (S_string ''hi'')]) False False =
     Inr (Some
       [jen_Qual ''example.com/api'' ''T'',
        jen_Values [jen_Dict
          [(jen_Statement [jen_Id ''B''],
            jen_Statement [jen_Lit reflect_String (S_string ''hi'')])]]])
   \<and> (\<exists>d.
       [jen_Qual ''example.com/api'' ''T'',
        jen_Values [jen_Dict
          [(jen_Statement [jen_Id ''B''],
            jen_Statement [jen_Lit reflect_String (S_string ''hi'')])]]]
         = [jen_Qual ''example.com/api'' ''T''] @ [jen_Values [jen_Dict d]]
       \<and> jen_Statement [jen_Id ''A''] \<notin> fst ` set d)"
proof -
  have nf: "\<not> fallbackApplies (StructType ''example.com/api'' ''T''
          [StructField ''A'' [] (StructType [] [] [StructField ''X'' [] (Basic reflect_Int [] [])] [] []),
           StructField ''B'' [] (Basic reflect_String [] [])] [] [])"
    by (simp add: fallbackApplies_def IsUnexportedField_def)
  have anon: "IsAnonymousStruct (StructType [] [] [StructField ''X'' [] (Basic reflect_Int [] [])] [] [])"
    by (simp add: IsAnonymousStruct_def)
  have ev: "generateStructValue (\<lambda>v. [])
       (StructV (StructType ''example.com/api'' ''T''
          [StructField ''A'' [] (StructType [] [] [StructField ''X'' [] (Basic reflect_Int [] [])] [] []),
           StructField ''B'' [] (Basic reflect_String [] [])] [] [])
         [StructV (StructType [] [] [StructField ''X'' [] (Basic reflect_Int [] [])] [] [])
            [Scalar (Basic reflect_Int [] []) (S_int 1)],
          Scalar (Basic reflect_String [] []) (S_string ''hi'')]) False False =
     Inr (Some
       [jen_Qual ''example.com/api'' ''T'',
        jen_Values [jen_Dict
          [(jen_Statement [jen_Id ''B''],
            jen_Statement [jen_Lit reflect_String (S_string ''hi'')])]]])"
    by code_simp
  from generateStructValue_anonymous_field [OF nf _ _ ev]
  obtain d where
      "[jen_Qual ''example.com/api'' ''T'',
        jen_Values [jen_Dict
          [(jen_Statement [jen_Id ''B''],
            jen_Statement [jen_Lit reflect_String (S_string ''hi'')])]]]
         = [jen_Qual ''example.com/api'' ''T''] @ [jen_Values [jen_Dict d]]"
    and "jen_Statement [jen_Id ''A''] \<notin> fst ` set d"
    by (auto simp add: All_less_Suc2 anon simp del: append.simps)
  with nf anon ev show ?thesis by blast
qed

text \<open>
  The claim as the spec states it fails: the struct \<^verbatim>\<open>T\<close> has one field \<^verbatim>\<open>A\<close> of
  the anonymous type \<^verbatim>\<open>struct { X int }\<close> holding \<^verbatim>\<open>X = 1\<close>, and the literal emitted
  for it is \<^verbatim>\<open>T{}\<close>: the value of \<^verbatim>\<open>A\<close> is not in the output.
\<close>

theorem generateValue_anonymous_field_counterexample:
  "IsAnonymousStruct (StructType [] [] [StructField ''X'' [] (Basic reflect_Int [] [])] [] [])
   \<and> \<not> IsZero (StructV (StructType [] [] [StructField ''X'' [] (Basic reflect_Int [] [])] [] [])
            [Scalar (Basic reflect_Int [] []) (S_int 1)])
   \<and> generateValue (\<lambda>v. [])
       (StructV (StructType ''example.com/api'' ''T''
          [StructField ''A'' [] (StructType [] [] [StructField ''X'' [] (Basic reflect_Int [] [])] [] [])] [] [])
         [StructV (StructType [] [] [StructField ''X'' [] (Basic reflect_Int [] [])] [] [])
            [Scalar (Basic reflect_Int [] []) (S_int 1)]]) False =
     Inr (Some [jen_Qual ''example.com/api'' ''T'', jen_Values [jen_Dict []]])"
  by code_simp

section \<open>Properties of the descriptor file\<close>














































end
